theory Spec2Isabelle
  imports Complex_Main
begin

section \<open>JavaScript numbers\<close>

text \<open>
  The chart viewport (\<^verbatim>\<open>src/components/shared/chart/Viewport.js\<close>) computes with
  JavaScript numbers. A number is modelled as a rational, or one of the three special
  values a division by zero produces. Arithmetic on rationals is exact: the sum, product
  and quotient of two finite numbers are the rational ones, where the source rounds them
  to the nearest double. What is proved below is therefore proved over exact rational
  arithmetic. The comparisons, the clamps and the special values are those of the source;
  an equation between two computed values (a width that is preserved, a difference that
  is the container height) is exact here and holds in doubles only up to rounding. A zero
  divisor is the positive zero (the divisors of the viewport code are a container width,
  with or without its margins, and a difference \<open>end - start\<close>, neither of which is
  ever the negative zero).
\<close>

datatype number = Finite rat | Infinity | NegInfinity | NaN

fun isFinite :: "number \<Rightarrow> bool" where
  "isFinite (Finite x) = True"
| "isFinite x = False"

text \<open>The sign of a number that is not \<open>NaN\<close>, and the infinity of a given sign.\<close>

fun signOf :: "number \<Rightarrow> rat" where
  "signOf (Finite x) = sgn x"
| "signOf Infinity = 1"
| "signOf NegInfinity = - 1"
| "signOf NaN = 0"

definition infinityOfSign :: "rat \<Rightarrow> number" where
  "infinityOfSign s = (if 0 < s then Infinity else if s < 0 then NegInfinity else NaN)"

instantiation number :: "{zero, one, uminus, plus, minus, times, inverse, ord}"
begin

definition zero_number :: number where
  "zero_number = Finite 0"

definition one_number :: number where
  "one_number = Finite 1"

fun uminus_number :: "number \<Rightarrow> number" where
  "uminus_number (Finite x) = Finite (- x)"
| "uminus_number Infinity = NegInfinity"
| "uminus_number NegInfinity = Infinity"
| "uminus_number NaN = NaN"

fun plus_number :: "number \<Rightarrow> number \<Rightarrow> number" where
  "plus_number (Finite x) (Finite y) = Finite (x + y)"
| "plus_number NaN y = NaN"
| "plus_number x NaN = NaN"
| "plus_number Infinity NegInfinity = NaN"
| "plus_number NegInfinity Infinity = NaN"
| "plus_number Infinity y = Infinity"
| "plus_number x Infinity = Infinity"
| "plus_number NegInfinity y = NegInfinity"
| "plus_number x NegInfinity = NegInfinity"

definition minus_number :: "number \<Rightarrow> number \<Rightarrow> number" where
  "minus_number x y = x + (- y)"

fun times_number :: "number \<Rightarrow> number \<Rightarrow> number" where
  "times_number (Finite x) (Finite y) = Finite (x * y)"
| "times_number NaN y = NaN"
| "times_number x NaN = NaN"
| "times_number x y = infinityOfSign (signOf x * signOf y)"

fun divide_number :: "number \<Rightarrow> number \<Rightarrow> number" where
  "divide_number (Finite x) (Finite y) =
     (if y = 0 then infinityOfSign (sgn x) else Finite (x / y))"
| "divide_number NaN y = NaN"
| "divide_number x NaN = NaN"
| "divide_number (Finite x) y = Finite 0"
| "divide_number x (Finite y) = infinityOfSign (signOf x * (if y < 0 then - 1 else 1))"
| "divide_number x y = NaN"

definition inverse_number :: "number \<Rightarrow> number" where
  "inverse_number x = divide (Finite 1) x"

fun less_number :: "number \<Rightarrow> number \<Rightarrow> bool" where
  "less_number (Finite x) (Finite y) = (x < y)"
| "less_number NaN y = False"
| "less_number x NaN = False"
| "less_number x NegInfinity = False"
| "less_number Infinity y = False"
| "less_number NegInfinity y = True"
| "less_number x Infinity = True"

definition less_eq_number :: "number \<Rightarrow> number \<Rightarrow> bool" where
  "less_eq_number x y = (x < y \<or> (x \<noteq> NaN \<and> x = y))"

instance ..

end

text \<open>\<^verbatim>\<open>a === b\<close> and \<^verbatim>\<open>a !== b\<close> on numbers: \<open>NaN\<close> is not equal to itself.\<close>

definition strictEquals :: "number \<Rightarrow> number \<Rightarrow> bool" where
  "strictEquals x y = (x \<noteq> NaN \<and> x = y)"

text \<open>\<^verbatim>\<open>Math.min\<close> and \<^verbatim>\<open>Math.max\<close> of two numbers.\<close>

definition Math_min :: "number \<Rightarrow> number \<Rightarrow> number" where
  "Math_min x y = (if x = NaN \<or> y = NaN then NaN else if x < y then x else y)"

definition Math_max :: "number \<Rightarrow> number \<Rightarrow> number" where
  "Math_max x y = (if x = NaN \<or> y = NaN then NaN else if x < y then y else x)"

text \<open>\<^verbatim>\<open>function clamp(min, max, value)\<close>, Viewport.js line 870.\<close>

definition clamp :: "number \<Rightarrow> number \<Rightarrow> number \<Rightarrow> number" where
  "clamp mn mx v = Math_max mn (Math_min mx v)"

section \<open>Data model\<close>

text \<open>\<^verbatim>\<open>StartEndRange\<close>: the committed time range (\<^verbatim>\<open>end\<close> is written \<open>end'\<close>).\<close>

record StartEndRange =
  start :: number
  end' :: number

text \<open>
  \<^verbatim>\<open>PreviewSelection\<close>: either \<^verbatim>\<open>{ hasSelection: false, isModifying: false }\<close> or
  \<^verbatim>\<open>{ hasSelection: true, isModifying, selectionStart, selectionEnd }\<close>.
\<close>

datatype PreviewSelection =
  NoSelection
| hasSelection: Selection (isModifying: bool) (selectionStart: number) (selectionEnd: number)

record HorizontalViewport =
  viewportLeft :: number
  viewportRight :: number

text \<open>\<^verbatim>\<open>getHorizontalViewport(previewSelection, timeRange)\<close>, lines 231-247.\<close>

definition getHorizontalViewport :: "PreviewSelection \<Rightarrow> StartEndRange \<Rightarrow> HorizontalViewport" where
  "getHorizontalViewport previewSelection timeRange =
     (if hasSelection previewSelection then
        let timeRangeLength = end' timeRange - start timeRange in
        \<lparr> viewportLeft = (selectionStart previewSelection - start timeRange) / timeRangeLength,
          viewportRight = (selectionEnd previewSelection - start timeRange) / timeRangeLength \<rparr>
      else \<lparr> viewportLeft = 0, viewportRight = 1 \<rparr>)"

text \<open>
  The React state of the component (\<^verbatim>\<open>type State\<close>, lines 154-166); \<^verbatim>\<open>setState\<close> is
  modelled as an immediate update.
\<close>

record State =
  containerWidth :: number
  containerHeight :: number
  containerLeft :: number
  viewportTop :: number
  viewportBottom :: number
  horizontalViewport :: HorizontalViewport
  dragX :: number
  dragY :: number
  isDragging :: bool
  isScrollHintVisible :: bool
  isSizeSet :: bool

text \<open>
  \<^verbatim>\<open>props.viewportProps\<close> (lines 122-147), without the class name, the container
  reference and the \<^verbatim>\<open>viewportNeedsUpdate\<close> callback (its result is an argument of
  \<open>UNSAFE_componentWillReceiveProps\<close> below). An optional boolean that is absent is false.
\<close>

record ViewportProps =
  timeRange :: StartEndRange
  maxViewportHeight :: number
  startsAtBottom :: bool
  maximumZoom :: number
  previewSelection :: PreviewSelection
  disableHorizontalMovement :: bool
  marginLeft :: number
  marginRight :: number

text \<open>
  The props of the connected component: \<^verbatim>\<open>viewportProps\<close> and the two values
  \<^verbatim>\<open>mapStateToProps\<close> reads from the store (lines 861-864).
\<close>

record Props =
  viewportProps :: ViewportProps
  panelLayoutGeneration :: nat
  hasZoomedViaMousewheel :: bool

datatype NavigationKey = ZoomIn | ZoomOut | Up | Down | Left | Right

text \<open>The callbacks handed to \<^verbatim>\<open>requestAnimationFrame\<close>.\<close>

datatype FrameCallback = FlushPendingPreviewSelectionUpdates | KeyboardNavigation | SetSize

text \<open>
  A queued preview selection update, \<^verbatim>\<open>(HorizontalViewport) => PreviewSelection\<close>. The
  closure queued by \<^verbatim>\<open>zoomRangeSelection\<close> reads \<^verbatim>\<open>this.props\<close> when it runs, so an
  update also takes the props of the component at the time of the flush.
\<close>

type_synonym PreviewSelectionUpdate = "Props \<Rightarrow> HorizontalViewport \<Rightarrow> PreviewSelection"

text \<open>
  The component instance \<^verbatim>\<open>ChartViewport\<close> (line 210) with its props, state and instance
  fields (the leading underscore of a field name is dropped), and the two effects on
  the outside: the queue of requested animation frames, the calls of
  \<^verbatim>\<open>updatePreviewSelection\<close> in the order they were made, the number of calls of
  \<^verbatim>\<open>setHasZoomedViaMousewheel\<close>, and the timeouts set by \<^verbatim>\<open>showScrollingHint\<close>, each
  with the \<^verbatim>\<open>scrollId\<close> its closure captured (they all have the same delay, and fire
  in the order they were set). \<^verbatim>\<open>_keysDown\<close> is a \<^verbatim>\<open>Set\<close>, iterated in insertion
  order: a list without duplicates.
\<close>

record ChartViewport =
  props :: Props
  state :: State
  pendingPreviewSelectionUpdates :: "PreviewSelectionUpdate list"
  lastKeyboardNavigationFrame :: number
  keysDown :: "NavigationKey list"
  animationFrames :: "FrameCallback list"
  updatePreviewSelectionCalls :: "PreviewSelection list"
  zoomScrollId :: nat
  scrollHintTimeouts :: "nat list"
  setHasZoomedViaMousewheelCalls :: nat

text \<open>The result of \<^verbatim>\<open>getBoundingClientRect()\<close>.\<close>

record DOMRect =
  rect_width :: number
  rect_height :: number
  rect_left :: number

record KeyboardEvent =
  ctrlKey :: bool
  shiftKey :: bool
  altKey :: bool
  metaKey :: bool
  code :: string

text \<open>
  The fields of a \<^verbatim>\<open>WheelEvent\<close> that the component reads; its \<^verbatim>\<open>ctrlKey\<close>,
  \<^verbatim>\<open>shiftKey\<close> and \<^verbatim>\<open>clientX\<close> are written \<open>wheelCtrlKey\<close>, \<open>wheelShiftKey\<close> and
  \<open>wheelClientX\<close>.
\<close>

record WheelEvent =
  wheelCtrlKey :: bool
  wheelShiftKey :: bool
  deltaX :: number
  deltaY :: number
  deltaMode :: nat
  wheelClientX :: number

text \<open>The third argument of \<^verbatim>\<open>getNormalizedScrollDelta\<close>: \<^verbatim>\<open>'deltaY' | 'deltaX'\<close>.\<close>

datatype DeltaKey = DeltaY | DeltaX

section \<open>Constants\<close>

definition KEYBOARD_NAVIGATION_SPEED :: number where
  "KEYBOARD_NAVIGATION_SPEED = Finite 2000"

definition MAX_KEYBOARD_DELTA :: number where
  "MAX_KEYBOARD_DELTA = Finite 500"

definition ZOOM_SPEED :: number where
  "ZOOM_SPEED = Finite (1003 / 1000)"

definition PINCH_ZOOM_FACTOR :: number where
  "PINCH_ZOOM_FACTOR = Finite 3"

definition SCROLL_LINE_SIZE :: number where
  "SCROLL_LINE_SIZE = Finite 15"

definition DOM_DELTA_LINE :: nat where
  "DOM_DELTA_LINE = 1"

definition DOM_DELTA_PAGE :: nat where
  "DOM_DELTA_PAGE = 2"

definition BARE_KEYMAP :: "string \<rightharpoonup> NavigationKey" where
  "BARE_KEYMAP = map_of
     [(''KeyQ'', ZoomIn), (''KeyY'', ZoomIn), (''KeyE'', ZoomOut), (''KeyU'', ZoomOut),
      (''KeyW'', Up), (''KeyK'', Up), (''KeyS'', Down), (''KeyJ'', Down),
      (''KeyA'', Left), (''KeyH'', Left), (''KeyD'', Right), (''KeyL'', Right)]"

definition CTRL_KEYMAP_entries :: "(string \<times> NavigationKey) list" where
  "CTRL_KEYMAP_entries = [(''ArrowUp'', ZoomIn), (''ArrowDown'', ZoomOut)]"

definition CTRL_KEYMAP :: "string \<rightharpoonup> NavigationKey" where
  "CTRL_KEYMAP = map_of CTRL_KEYMAP_entries"

section \<open>Operations of the component\<close>

definition requestAnimationFrame :: "FrameCallback \<Rightarrow> ChartViewport \<Rightarrow> ChartViewport" where
  "requestAnimationFrame callback this =
     this\<lparr> animationFrames := animationFrames this @ [callback] \<rparr>"

text \<open>\<^verbatim>\<open>getDefaultState(props)\<close>, lines 249-269.\<close>

definition getDefaultState :: "Props \<Rightarrow> State" where
  "getDefaultState p =
     \<lparr> containerWidth = 0,
       containerHeight = 0,
       containerLeft = 0,
       viewportTop = 0,
       viewportBottom =
         (if startsAtBottom (viewportProps p) then maxViewportHeight (viewportProps p) else 0),
       horizontalViewport =
         getHorizontalViewport (previewSelection (viewportProps p)) (timeRange (viewportProps p)),
       dragX = 0,
       dragY = 0,
       isDragging = False,
       isScrollHintVisible = False,
       isSizeSet = False \<rparr>"

text \<open>The constructor (lines 226-229) and the initial values of the instance fields.\<close>

definition constructor :: "Props \<Rightarrow> ChartViewport" where
  "constructor p =
     \<lparr> props = p,
       state = getDefaultState p,
       pendingPreviewSelectionUpdates = [],
       lastKeyboardNavigationFrame = 0,
       keysDown = [],
       animationFrames = [],
       updatePreviewSelectionCalls = [],
       zoomScrollId = 0,
       scrollHintTimeouts = [],
       setHasZoomedViaMousewheelCalls = 0 \<rparr>"

text \<open>
  \<^verbatim>\<open>_setSize\<close>, lines 321-343. The argument is the bounding rectangle of the container,
  or \<open>None\<close> when \<^verbatim>\<open>this._container\<close> is null.
\<close>

definition setSize :: "DOMRect option \<Rightarrow> ChartViewport \<Rightarrow> ChartViewport" where
  "setSize container this =
     (case container of
        None \<Rightarrow> this
      | Some rect \<Rightarrow>
          if \<not> strictEquals (containerWidth (state this)) (rect_width rect) \<or>
             \<not> strictEquals (containerHeight (state this)) (rect_height rect)
          then
            let prevState = state this in
            this\<lparr> state := prevState
              \<lparr> containerWidth := rect_width rect,
                containerHeight := rect_height rect,
                containerLeft := rect_left rect,
                viewportBottom :=
                  (if startsAtBottom (viewportProps (props this))
                   then viewportBottom prevState
                   else viewportTop prevState + rect_height rect),
                viewportTop :=
                  (if startsAtBottom (viewportProps (props this))
                   then viewportBottom prevState - rect_height rect
                   else viewportTop prevState),
                isSizeSet := True \<rparr> \<rparr>
          else this)"

text \<open>\<^verbatim>\<open>_setSizeNextFrame\<close>, lines 345-347.\<close>

definition setSizeNextFrame :: "ChartViewport \<Rightarrow> ChartViewport" where
  "setSizeNextFrame this = requestAnimationFrame SetSize this"

text \<open>\<^verbatim>\<open>_addBatchedPreviewSelectionUpdate(callback)\<close>, lines 428-437.\<close>

definition addBatchedPreviewSelectionUpdate ::
    "PreviewSelectionUpdate \<Rightarrow> ChartViewport \<Rightarrow> ChartViewport" where
  "addBatchedPreviewSelectionUpdate callback this =
     (let this1 =
        (if length (pendingPreviewSelectionUpdates this) = 0
         then requestAnimationFrame FlushPendingPreviewSelectionUpdates this
         else this)
      in this1\<lparr> pendingPreviewSelectionUpdates :=
                  pendingPreviewSelectionUpdates this1 @ [callback] \<rparr>)"

text \<open>
  The loop of \<^verbatim>\<open>_flushPendingPreviewSelectionUpdates\<close> (lines 452-458) over the
  pending updates, from the selection reached so far.
\<close>

fun applyPendingUpdates ::
    "PreviewSelectionUpdate list \<Rightarrow> Props \<Rightarrow> StartEndRange \<Rightarrow> PreviewSelection \<Rightarrow> PreviewSelection" where
  "applyPendingUpdates [] p tRange nextSelection = nextSelection"
| "applyPendingUpdates (callback # pendingUpdates) p tRange nextSelection =
     (let horizontalViewport = getHorizontalViewport nextSelection tRange in
      applyPendingUpdates pendingUpdates p tRange (callback p horizontalViewport))"

text \<open>\<^verbatim>\<open>_flushPendingPreviewSelectionUpdates()\<close>, lines 443-461.\<close>

definition flushPendingPreviewSelectionUpdates :: "ChartViewport \<Rightarrow> ChartViewport" where
  "flushPendingPreviewSelectionUpdates this =
     (if length (pendingPreviewSelectionUpdates this) \<noteq> 0 then
        let pendingUpdates = pendingPreviewSelectionUpdates this;
            this1 = this\<lparr> pendingPreviewSelectionUpdates := [] \<rparr>;
            nextSelection =
              applyPendingUpdates pendingUpdates (props this1)
                (timeRange (viewportProps (props this1)))
                (previewSelection (viewportProps (props this1)))
        in this1\<lparr> updatePreviewSelectionCalls :=
                    updatePreviewSelectionCalls this1 @ [nextSelection] \<rparr>
      else this)"

text \<open>
  The length of the viewport after a zoom, \<^verbatim>\<open>newViewportLength\<close>, lines 505-510.
\<close>

definition newViewportLength :: "number \<Rightarrow> number \<Rightarrow> HorizontalViewport \<Rightarrow> number" where
  "newViewportLength maxZoom zoomFactor hv =
     (let viewportLength = viewportRight hv - viewportLeft hv
      in clamp maxZoom 1 (viewportLength * zoomFactor))"

text \<open>
  The viewport computed by the update that \<^verbatim>\<open>zoomRangeSelection\<close> queues, lines 505-521:
  \<^verbatim>\<open>newViewportLeft\<close> and \<^verbatim>\<open>newViewportRight\<close>.
\<close>

definition zoomedViewport ::
    "number \<Rightarrow> number \<Rightarrow> number \<Rightarrow> HorizontalViewport \<Rightarrow> HorizontalViewport" where
  "zoomedViewport maxZoom center zoomFactor hv =
     (let viewportLength = viewportRight hv - viewportLeft hv;
          newLength = newViewportLength maxZoom zoomFactor hv;
          deltaViewportLength = newLength - viewportLength;
          newViewportLeft =
            clamp 0 (1 - newLength) (viewportLeft hv - deltaViewportLength * center);
          newViewportRight =
            clamp newLength 1 (viewportRight hv + deltaViewportLength * (1 - center))
      in \<lparr> viewportLeft = newViewportLeft, viewportRight = newViewportRight \<rparr>)"

text \<open>The update that \<^verbatim>\<open>zoomRangeSelection\<close> queues, lines 504-541.\<close>

definition zoomUpdate :: "number \<Rightarrow> number \<Rightarrow> number \<Rightarrow> PreviewSelectionUpdate" where
  "zoomUpdate maxZoom center zoomFactor p hv =
     (let new = zoomedViewport maxZoom center zoomFactor hv;
          tRange = timeRange (viewportProps p)
      in if strictEquals (viewportLeft new) 0 \<and> strictEquals (viewportRight new) 1
         then NoSelection
         else
           let timeRangeLength = end' tRange - start tRange in
           Selection False
             (start tRange + timeRangeLength * viewportLeft new)
             (start tRange + timeRangeLength * viewportRight new))"

text \<open>\<^verbatim>\<open>zoomRangeSelection(center, zoomFactor)\<close>, lines 494-543.\<close>

definition zoomRangeSelection :: "number \<Rightarrow> number \<Rightarrow> ChartViewport \<Rightarrow> ChartViewport" where
  "zoomRangeSelection center zoomFactor this =
     (if disableHorizontalMovement (viewportProps (props this)) then this
      else addBatchedPreviewSelectionUpdate
             (zoomUpdate (maximumZoom (viewportProps (props this))) center zoomFactor) this)"

text \<open>
  The viewport computed by the update that \<^verbatim>\<open>moveViewport\<close> queues, lines 729-739, for a
  viewport of length below 1.
\<close>

definition pannedViewport :: "number \<Rightarrow> number \<Rightarrow> HorizontalViewport \<Rightarrow> HorizontalViewport" where
  "pannedViewport width offsetX hv =
     (let viewportLength = viewportRight hv - viewportLeft hv;
          unitOffsetX = (viewportLength * offsetX) / width;
          newViewportLeft = viewportLeft hv - unitOffsetX;
          newViewportRight = viewportRight hv - unitOffsetX;
          (newViewportLeft, newViewportRight) =
            (if newViewportLeft < 0 then (0, viewportLength)
             else (newViewportLeft, newViewportRight));
          (newViewportLeft, newViewportRight) =
            (if 1 < newViewportRight then (1 - viewportLength, 1)
             else (newViewportLeft, newViewportRight))
      in \<lparr> viewportLeft = newViewportLeft, viewportRight = newViewportRight \<rparr>)"

text \<open>
  The update that \<^verbatim>\<open>moveViewport\<close> queues, lines 720-750. The time range and the
  container width are the ones read when \<^verbatim>\<open>moveViewport\<close> was called.
\<close>

definition moveUpdate :: "StartEndRange \<Rightarrow> number \<Rightarrow> number \<Rightarrow> PreviewSelectionUpdate" where
  "moveUpdate tRange width offsetX p hv =
     (let viewportLength = viewportRight hv - viewportLeft hv in
      if 1 \<le> viewportLength then NoSelection
      else
        let new = pannedViewport width offsetX hv;
            timeRangeLength = end' tRange - start tRange
        in Selection False
             (start tRange + timeRangeLength * viewportLeft new)
             (start tRange + timeRangeLength * viewportRight new))"

text \<open>\<^verbatim>\<open>moveViewport(offsetX, offsetY)\<close>, lines 665-753.\<close>

definition moveViewport :: "number \<Rightarrow> number \<Rightarrow> ChartViewport \<Rightarrow> ChartViewport" where
  "moveViewport offsetX offsetY this =
     (let maxHeight = maxViewportHeight (viewportProps (props this));
          cHeight = containerHeight (state this);
          oldViewportTop = viewportTop (state this)
      in if \<not> isSizeSet (state this) then this
         else
           let newViewportTop = oldViewportTop - offsetY;
               newViewportBottom = newViewportTop + cHeight;
               (newViewportTop, newViewportBottom) =
                 (if maxHeight < cHeight then
                    (if startsAtBottom (viewportProps (props this))
                     then (maxHeight - cHeight, maxHeight)
                     else (0, cHeight))
                  else if maxHeight < newViewportBottom then (maxHeight - cHeight, maxHeight)
                  else if newViewportTop < 0 then (0, cHeight)
                  else (newViewportTop, newViewportBottom));
               this1 =
                 (if \<not> strictEquals newViewportTop oldViewportTop
                  then this\<lparr> state := (state this)
                         \<lparr> viewportTop := newViewportTop,
                           viewportBottom := newViewportBottom \<rparr> \<rparr>
                  else this)
           in if \<not> disableHorizontalMovement (viewportProps (props this))
              then addBatchedPreviewSelectionUpdate
                     (moveUpdate (timeRange (viewportProps (props this)))
                        (containerWidth (state this)) offsetX) this1
              else this1)"

text \<open>
  \<^verbatim>\<open>_deltaToZoomFactor\<close>, line 224. \<^verbatim>\<open>Math.pow\<close> is not a rational function: it is the
  parameter \<open>pow\<close> of the operations that use it.
\<close>

definition deltaToZoomFactor :: "(number \<Rightarrow> number \<Rightarrow> number) \<Rightarrow> number \<Rightarrow> number" where
  "deltaToZoomFactor pow delta = pow ZOOM_SPEED delta"

text \<open>\<^verbatim>\<open>_keysDown.add(key)\<close> and \<^verbatim>\<open>_keysDown.delete(key)\<close> on the insertion-ordered set.\<close>

definition setAdd :: "'a \<Rightarrow> 'a list \<Rightarrow> 'a list" where
  "setAdd k ks = (if k \<in> set ks then ks else ks @ [k])"

definition setDelete :: "'a option \<Rightarrow> 'a list \<Rightarrow> 'a list" where
  "setDelete k ks = (case k of None \<Rightarrow> ks | Some x \<Rightarrow> removeAll x ks)"

text \<open>
  \<^verbatim>\<open>_keyDownListener(event)\<close>, lines 576-604; \<open>now\<close> is the value of
  \<^verbatim>\<open>performance.now()\<close>.
\<close>

definition keyDownListener :: "KeyboardEvent \<Rightarrow> number \<Rightarrow> ChartViewport \<Rightarrow> ChartViewport" where
  "keyDownListener event now this =
     (let navigationKey =
        (if \<not> ctrlKey event \<and> \<not> shiftKey event \<and> \<not> altKey event \<and> \<not> metaKey event
         then BARE_KEYMAP (code event)
         else if ctrlKey event then CTRL_KEYMAP (code event)
         else None)
      in case navigationKey of
           None \<Rightarrow> this
         | Some key \<Rightarrow>
             let this1 =
               (if length (keysDown this) = 0
                then (requestAnimationFrame KeyboardNavigation this)
                       \<lparr> lastKeyboardNavigationFrame := now \<rparr>
                else this)
             in this1\<lparr> keysDown := setAdd key (keysDown this1) \<rparr>)"

text \<open>\<^verbatim>\<open>_keyUpListener(event)\<close>, lines 606-621.\<close>

definition keyUpListener :: "KeyboardEvent \<Rightarrow> ChartViewport \<Rightarrow> ChartViewport" where
  "keyUpListener event this =
     (let keys1 =
        (if \<not> ctrlKey event
         then fold (\<lambda>key keys. setDelete (Some key) keys) (map snd CTRL_KEYMAP_entries)
                (keysDown this)
         else keysDown this);
          keys2 = setDelete (CTRL_KEYMAP (code event)) keys1;
          keys3 = setDelete (BARE_KEYMAP (code event)) keys2
      in this\<lparr> keysDown := keys3 \<rparr>)"

text \<open>The delta of a keyboard navigation frame, lines 630-635.\<close>

definition keyboardDelta :: "number \<Rightarrow> number \<Rightarrow> number" where
  "keyboardDelta timestamp lastFrame =
     Math_min (KEYBOARD_NAVIGATION_SPEED * (timestamp - lastFrame) * Finite (1 / 1000))
       MAX_KEYBOARD_DELTA"

text \<open>The body of the loop over the keys that are down, lines 639-660.\<close>

fun navigate ::
    "(number \<Rightarrow> number \<Rightarrow> number) \<Rightarrow> number \<Rightarrow> NavigationKey \<Rightarrow> ChartViewport \<Rightarrow> ChartViewport" where
  "navigate pow delta ZoomIn this =
     zoomRangeSelection (Finite (1 / 2)) (deltaToZoomFactor pow (- delta)) this"
| "navigate pow delta ZoomOut this =
     zoomRangeSelection (Finite (1 / 2)) (deltaToZoomFactor pow delta) this"
| "navigate pow delta Up this = moveViewport 0 delta this"
| "navigate pow delta Down this = moveViewport 0 (- delta) this"
| "navigate pow delta Left this = moveViewport delta 0 this"
| "navigate pow delta Right this = moveViewport (- delta) 0 this"

text \<open>\<^verbatim>\<open>_keyboardNavigation(timestamp)\<close>, lines 623-663.\<close>

definition keyboardNavigation ::
    "(number \<Rightarrow> number \<Rightarrow> number) \<Rightarrow> number \<Rightarrow> ChartViewport \<Rightarrow> ChartViewport" where
  "keyboardNavigation pow timestamp this =
     (if length (keysDown this) = 0 then this
      else
        let delta = keyboardDelta timestamp (lastKeyboardNavigationFrame this);
            this1 = this\<lparr> lastKeyboardNavigationFrame := timestamp \<rparr>;
            this2 = foldl (\<lambda>t navigationKey. navigate pow delta navigationKey t) this1
                      (keysDown this1)
        in requestAnimationFrame KeyboardNavigation this2)"

text \<open>
  \<^verbatim>\<open>UNSAFE_componentWillReceiveProps(newProps)\<close>, lines 291-319, followed by React's
  assignment of the new props. \<open>needsUpdate\<close> is the result of the chart's
  \<^verbatim>\<open>viewportNeedsUpdate\<close> callback, and \<open>replaced\<close> the result of comparing the
  identities of the old and new \<^verbatim>\<open>previewSelection\<close> and \<^verbatim>\<open>timeRange\<close> objects.
\<close>

definition UNSAFE_componentWillReceiveProps ::
    "bool \<Rightarrow> bool \<Rightarrow> Props \<Rightarrow> ChartViewport \<Rightarrow> ChartViewport" where
  "UNSAFE_componentWillReceiveProps needsUpdate replaced newProps this =
     (let this1 =
        (if needsUpdate then setSizeNextFrame (this\<lparr> state := getDefaultState newProps \<rparr>)
         else if replaced then
           this\<lparr> state := (state this)
             \<lparr> horizontalViewport :=
                 getHorizontalViewport (previewSelection (viewportProps newProps))
                   (timeRange (viewportProps newProps)) \<rparr> \<rparr>
         else if panelLayoutGeneration (props this) \<noteq> panelLayoutGeneration newProps
         then setSizeNextFrame this
         else this)
      in this1\<lparr> props := newProps \<rparr>)"

text \<open>
  \<^verbatim>\<open>_mouseMoveListener(event)\<close>, lines 555-574, for a mouse at \<open>(clientX, clientY)\<close>, and
  \<^verbatim>\<open>_mouseUpListener\<close>, lines 755-762.
\<close>

definition mouseMoveListener :: "number \<Rightarrow> number \<Rightarrow> ChartViewport \<Rightarrow> ChartViewport" where
  "mouseMoveListener clientX clientY this =
     (let (x, y) =
        (if \<not> isDragging (state this) then (clientX, clientY)
         else (dragX (state this), dragY (state this)));
          offsetX = clientX - x;
          offsetY = clientY - y;
          this1 = this\<lparr> state := (state this)
                    \<lparr> dragX := clientX, dragY := clientY, isDragging := True \<rparr> \<rparr>
      in moveViewport offsetX offsetY this1)"

definition mouseUpListener :: "ChartViewport \<Rightarrow> ChartViewport" where
  "mouseUpListener this = this\<lparr> state := (state this)\<lparr> isDragging := False \<rparr> \<rparr>"

text \<open>\<^verbatim>\<open>getNormalizedScrollDelta(event, pageHeight, key)\<close>, lines 880-895.\<close>

definition getNormalizedScrollDelta :: "WheelEvent \<Rightarrow> number \<Rightarrow> DeltaKey \<Rightarrow> number" where
  "getNormalizedScrollDelta event pageHeight key =
     (let delta = (if key = DeltaY then deltaY event else deltaX event)
      in if deltaMode event = DOM_DELTA_PAGE then delta * pageHeight
         else if deltaMode event = DOM_DELTA_LINE then delta * SCROLL_LINE_SIZE
         else delta)"

text \<open>
  \<^verbatim>\<open>showScrollingHint()\<close>, lines 274-289, and the callback of the timeout it sets, for
  the oldest timeout that has not fired.
\<close>

definition showScrollingHint :: "ChartViewport \<Rightarrow> ChartViewport" where
  "showScrollingHint this =
     (if hasZoomedViaMousewheel (props this) then this
      else
        let scrollId = zoomScrollId this + 1;
            this1 = this\<lparr> zoomScrollId := scrollId \<rparr>;
            this2 =
              (if \<not> isScrollHintVisible (state this1)
               then this1\<lparr> state := (state this1)\<lparr> isScrollHintVisible := True \<rparr> \<rparr>
               else this1)
        in this2\<lparr> scrollHintTimeouts := scrollHintTimeouts this2 @ [scrollId] \<rparr>)"

definition scrollHintTimeout :: "ChartViewport \<Rightarrow> ChartViewport" where
  "scrollHintTimeout this =
     (case scrollHintTimeouts this of
        [] \<Rightarrow> this
      | scrollId # timeouts \<Rightarrow>
          let this1 = this\<lparr> scrollHintTimeouts := timeouts \<rparr>
          in if scrollId = zoomScrollId this1
             then this1\<lparr> state := (state this1)\<lparr> isScrollHintVisible := False \<rparr> \<rparr>
             else this1)"

text \<open>
  \<^verbatim>\<open>zoomWithMouseWheel(event, zoomModifier)\<close>, lines 463-492. The connected component
  always has the prop \<^verbatim>\<open>setHasZoomedViaMousewheel\<close> (line 865).
\<close>

definition zoomWithMouseWheel ::
    "(number \<Rightarrow> number \<Rightarrow> number) \<Rightarrow> WheelEvent \<Rightarrow> number \<Rightarrow> ChartViewport \<Rightarrow> ChartViewport" where
  "zoomWithMouseWheel pow event zoomModifier this =
     (let this1 =
        (if \<not> hasZoomedViaMousewheel (props this)
         then this\<lparr> setHasZoomedViaMousewheelCalls := setHasZoomedViaMousewheelCalls this + 1 \<rparr>
         else this);
          normalizedDeltaY =
            getNormalizedScrollDelta event (containerHeight (state this1))
              (if strictEquals (deltaY event) 0 then DeltaX else DeltaY);
          zoomFactor = deltaToZoomFactor pow (normalizedDeltaY * zoomModifier);
          mouseX = wheelClientX event;
          innerContainerWidth =
            containerWidth (state this1) - marginLeft (viewportProps (props this1))
              - marginRight (viewportProps (props this1));
          mouseCenter =
            (mouseX - containerLeft (state this1) - marginLeft (viewportProps (props this1)))
              / innerContainerWidth
      in zoomRangeSelection mouseCenter zoomFactor this1)"

text \<open>\<^verbatim>\<open>_mouseWheelListener(event)\<close>, lines 391-418.\<close>

definition mouseWheelListener ::
    "(number \<Rightarrow> number \<Rightarrow> number) \<Rightarrow> WheelEvent \<Rightarrow> ChartViewport \<Rightarrow> ChartViewport" where
  "mouseWheelListener pow event this =
     (if wheelCtrlKey event \<or> wheelShiftKey event then
        (if \<not> disableHorizontalMovement (viewportProps (props this))
         then zoomWithMouseWheel pow event
                (if wheelCtrlKey event then PINCH_ZOOM_FACTOR else 1) this
         else this)
      else
        let this1 =
          (if \<not> disableHorizontalMovement (viewportProps (props this))
           then showScrollingHint this
           else this);
            cHeight = containerHeight (state this1)
        in moveViewport (- getNormalizedScrollDelta event cHeight DeltaX)
             (- getNormalizedScrollDelta event cHeight DeltaY) this1)"

section \<open>Animation frames and events\<close>

text \<open>
  Running one requested callback, and one animation frame: the callbacks requested before
  the frame run in the order of their requests, with the timestamp of the frame, and what
  they request runs in a later frame.
\<close>

fun runCallback ::
    "(number \<Rightarrow> number \<Rightarrow> number) \<Rightarrow> number \<Rightarrow> DOMRect option \<Rightarrow> FrameCallback \<Rightarrow>
     ChartViewport \<Rightarrow> ChartViewport" where
  "runCallback pow timestamp container FlushPendingPreviewSelectionUpdates this =
     flushPendingPreviewSelectionUpdates this"
| "runCallback pow timestamp container KeyboardNavigation this =
     keyboardNavigation pow timestamp this"
| "runCallback pow timestamp container SetSize this = setSize container this"

definition animationFrame ::
    "(number \<Rightarrow> number \<Rightarrow> number) \<Rightarrow> number \<Rightarrow> DOMRect option \<Rightarrow> ChartViewport \<Rightarrow> ChartViewport" where
  "animationFrame pow timestamp container this =
     foldl (\<lambda>t callback. runCallback pow timestamp container callback t)
       (this\<lparr> animationFrames := [] \<rparr>) (animationFrames this)"

text \<open>What can happen to a mounted component.\<close>

datatype Event =
  Resize "DOMRect option"
| ReceiveProps bool bool Props
| MoveViewport number number
| ZoomRangeSelection number number
| MouseMove number number
| MouseUp
| KeyDown KeyboardEvent number
| KeyUp KeyboardEvent
| Wheel WheelEvent
| ScrollHintTimeout
| AnimationFrame number "DOMRect option"

fun handle :: "(number \<Rightarrow> number \<Rightarrow> number) \<Rightarrow> Event \<Rightarrow> ChartViewport \<Rightarrow> ChartViewport" where
  "handle pow (Resize container) this = setSize container this"
| "handle pow (ReceiveProps needsUpdate replaced newProps) this =
     UNSAFE_componentWillReceiveProps needsUpdate replaced newProps this"
| "handle pow (MoveViewport offsetX offsetY) this = moveViewport offsetX offsetY this"
| "handle pow (ZoomRangeSelection center zoomFactor) this =
     zoomRangeSelection center zoomFactor this"
| "handle pow (MouseMove clientX clientY) this = mouseMoveListener clientX clientY this"
| "handle pow MouseUp this = mouseUpListener this"
| "handle pow (KeyDown event now) this = keyDownListener event now this"
| "handle pow (KeyUp event) this = keyUpListener event this"
| "handle pow (Wheel event) this = mouseWheelListener pow event this"
| "handle pow ScrollHintTimeout this = scrollHintTimeout this"
| "handle pow (AnimationFrame timestamp container) this =
     animationFrame pow timestamp container this"

section \<open>Invariants\<close>

text \<open>A horizontal viewport is valid when \<open>0 \<le> left < right \<le> 1\<close>.\<close>

definition validViewport :: "HorizontalViewport \<Rightarrow> bool" where
  "validViewport hv =
     (0 \<le> viewportLeft hv \<and> viewportLeft hv < viewportRight hv \<and> viewportRight hv \<le> 1)"

text \<open>
  The vertical invariant of a component: the pixel values the vertical arithmetic reads
  are finite and, once the size is set, \<open>viewportBottom - viewportTop\<close> is
  \<open>containerHeight\<close>.
\<close>

definition verticalInvariant :: "ChartViewport \<Rightarrow> bool" where
  "verticalInvariant this =
     (isFinite (viewportTop (state this)) \<and>
      isFinite (viewportBottom (state this)) \<and>
      isFinite (containerHeight (state this)) \<and>
      isFinite (dragY (state this)) \<and>
      isFinite (maxViewportHeight (viewportProps (props this))) \<and>
      isFinite (lastKeyboardNavigationFrame this) \<and>
      (isSizeSet (state this) \<longrightarrow>
         strictEquals (viewportBottom (state this) - viewportTop (state this))
           (containerHeight (state this))))"

text \<open>
  The invariant of the batching: a flush is requested exactly once while an update is
  pending, and not at all otherwise. Within an animation frame the requests are those
  of the callbacks of the frame that are still to run, \<open>running\<close>, and those made for the
  next frame.
\<close>

definition flushInvariant :: "FrameCallback list \<Rightarrow> ChartViewport \<Rightarrow> bool" where
  "flushInvariant running this =
     (count_list (running @ animationFrames this) FlushPendingPreviewSelectionUpdates =
        (if pendingPreviewSelectionUpdates this = [] then 0 else 1))"

text \<open>The events whose pixel and time values are finite numbers.\<close>

fun finiteRect :: "DOMRect option \<Rightarrow> bool" where
  "finiteRect None = True"
| "finiteRect (Some rect) =
     (isFinite (rect_width rect) \<and> isFinite (rect_height rect) \<and> isFinite (rect_left rect))"

fun finiteEvent :: "Event \<Rightarrow> bool" where
  "finiteEvent (Resize container) = finiteRect container"
| "finiteEvent (ReceiveProps needsUpdate replaced newProps) =
     isFinite (maxViewportHeight (viewportProps newProps))"
| "finiteEvent (MoveViewport offsetX offsetY) = (isFinite offsetX \<and> isFinite offsetY)"
| "finiteEvent (ZoomRangeSelection center zoomFactor) = True"
| "finiteEvent (MouseMove clientX clientY) = (isFinite clientX \<and> isFinite clientY)"
| "finiteEvent MouseUp = True"
| "finiteEvent (KeyDown event now) = isFinite now"
| "finiteEvent (KeyUp event) = True"
| "finiteEvent (Wheel event) = (isFinite (deltaX event) \<and> isFinite (deltaY event))"
| "finiteEvent ScrollHintTimeout = True"
| "finiteEvent (AnimationFrame timestamp container) =
     (isFinite timestamp \<and> finiteRect container)"

section \<open>A sample chart\<close>

text \<open>
  A chart over the time range from 0 to 100 with the selection from 25 to 75, in a
  container 1000 pixels wide and 200 pixels high over 300 pixels of content.
\<close>

definition sampleProps :: Props where
  "sampleProps =
     \<lparr> viewportProps =
         \<lparr> timeRange = \<lparr> start = Finite 0, end' = Finite 100 \<rparr>,
           maxViewportHeight = Finite 300,
           startsAtBottom = False,
           maximumZoom = Finite (1 / 100),
           previewSelection = Selection False (Finite 25) (Finite 75),
           disableHorizontalMovement = False,
           marginLeft = Finite 0,
           marginRight = Finite 0 \<rparr>,
       panelLayoutGeneration = 0,
       hasZoomedViaMousewheel = False \<rparr>"

definition sampleRect :: DOMRect where
  "sampleRect = \<lparr> rect_width = Finite 1000, rect_height = Finite 200, rect_left = Finite 0 \<rparr>"

definition sampleChart :: ChartViewport where
  "sampleChart = setSize (Some sampleRect) (constructor sampleProps)"

text \<open>The sample chart after the key S (down) was pressed at time 0.\<close>

definition sampleKeyS :: KeyboardEvent where
  "sampleKeyS =
     \<lparr> ctrlKey = False, shiftKey = False, altKey = False, metaKey = False, code = ''KeyS'' \<rparr>"

definition sampleNavigating :: ChartViewport where
  "sampleNavigating = keyDownListener sampleKeyS (Finite 0) sampleChart"



text \<open>The sample chart in a container of width 0 and height 200.\<close>

definition zeroWidthChart :: ChartViewport where
  "zeroWidthChart =
     setSize (Some \<lparr> rect_width = Finite 0, rect_height = Finite 200, rect_left = Finite 0 \<rparr>)
       (constructor sampleProps)"

text \<open>
  The sample chart with the margins of the timeline, 150 pixels on the left and 15 on the
  right, in a container 165 pixels wide: nothing is left between the margins. The wheel
  event is a turn of the wheel by 100 pixels with the shift key down and the mouse at the
  right end of the left margin.
\<close>

definition narrowProps :: Props where
  "narrowProps =
     sampleProps\<lparr> viewportProps :=
       (viewportProps sampleProps)\<lparr> marginLeft := Finite 150, marginRight := Finite 15 \<rparr> \<rparr>"

definition narrowChart :: ChartViewport where
  "narrowChart =
     setSize (Some \<lparr> rect_width = Finite 165, rect_height = Finite 200, rect_left = Finite 0 \<rparr>)
       (constructor narrowProps)"

text \<open>
  The props of the sample chart after the time range from 0 to 10 was committed, with the
  selection from 5/2 to 15/2: the same viewport \<open>(1/4, 3/4)\<close> of a shorter range.
\<close>

definition committedProps :: Props where
  "committedProps =
     sampleProps\<lparr> viewportProps :=
       (viewportProps sampleProps)
         \<lparr> timeRange := \<lparr> start = Finite 0, end' = Finite 10 \<rparr>,
           previewSelection := Selection False (Finite (5/2)) (Finite (15/2)) \<rparr> \<rparr>"

definition sampleShiftWheel :: WheelEvent where
  "sampleShiftWheel =
     \<lparr> wheelCtrlKey = False, wheelShiftKey = True, deltaX = Finite 0, deltaY = Finite (- 100),
       deltaMode = 0, wheelClientX = Finite 150 \<rparr>"

section \<open>Arithmetic on finite numbers\<close>

lemma zero_number_Finite [simp]: "(0::number) = Finite 0"
  by (simp add: zero_number_def)

lemma one_number_Finite [simp]: "(1::number) = Finite 1"
  by (simp add: one_number_def)

lemma minus_Finite [simp]: "Finite x - Finite y = Finite (x - y)"
  by (simp add: minus_number_def)

lemma less_eq_Finite [simp]: "(Finite x \<le> Finite y) = (x \<le> y)"
  by (auto simp: less_eq_number_def)

lemma strictEquals_Finite [simp]: "strictEquals (Finite x) (Finite y) = (x = y)"
  by (simp add: strictEquals_def)

lemma Math_min_Finite [simp]: "Math_min (Finite x) (Finite y) = Finite (min x y)"
  by (simp add: Math_min_def min_def)

lemma Math_max_Finite [simp]: "Math_max (Finite x) (Finite y) = Finite (max x y)"
  by (simp add: Math_max_def max_def)

lemma clamp_Finite [simp]:
  "clamp (Finite a) (Finite b) (Finite v) = Finite (max a (min b v))"
  by (simp add: clamp_def)

lemmas sample_defs =
  sampleChart_def sampleRect_def sampleProps_def setSize_def constructor_def
  getDefaultState_def getHorizontalViewport_def

lemma sampleChart_facts:
  "props sampleChart = sampleProps"
  "isSizeSet (state sampleChart)"
  "\<not> disableHorizontalMovement (viewportProps sampleProps)"
  "maximumZoom (viewportProps sampleProps) = Finite (1 / 100)"
  "timeRange (viewportProps sampleProps) = \<lparr> start = Finite 0, end' = Finite 100 \<rparr>"
  "maxViewportHeight (viewportProps sampleProps) = Finite 300"
  "\<not> startsAtBottom (viewportProps sampleProps)"
  "previewSelection (viewportProps sampleProps) = Selection False (Finite 25) (Finite 75)"
  "containerWidth (state sampleChart) = Finite 1000"
  "containerHeight (state sampleChart) = Finite 200"
  "viewportTop (state sampleChart) = Finite 0"
  "viewportBottom (state sampleChart) = Finite 200"
  "pendingPreviewSelectionUpdates sampleChart = []"
  "keysDown sampleChart = []"
  "animationFrames sampleChart = []"
  "updatePreviewSelectionCalls sampleChart = []"
  "lastKeyboardNavigationFrame sampleChart = Finite 0"
  by (simp_all add: sample_defs)

lemma narrowChart_facts:
  "props narrowChart = narrowProps"
  "isSizeSet (state narrowChart)"
  "containerWidth (state narrowChart) = Finite 165"
  "containerHeight (state narrowChart) = Finite 200"
  "containerLeft (state narrowChart) = Finite 0"
  "horizontalViewport (state narrowChart)
     = \<lparr> viewportLeft = Finite (1/4), viewportRight = Finite (3/4) \<rparr>"
  "marginLeft (viewportProps narrowProps) = Finite 150"
  "marginRight (viewportProps narrowProps) = Finite 15"
  "maximumZoom (viewportProps narrowProps) = Finite (1/100)"
  "\<not> disableHorizontalMovement (viewportProps narrowProps)"
  "\<not> hasZoomedViaMousewheel narrowProps"
  "timeRange (viewportProps narrowProps) = \<lparr> start = Finite 0, end' = Finite 100 \<rparr>"
  "previewSelection (viewportProps narrowProps) = Selection False (Finite 25) (Finite 75)"
  "pendingPreviewSelectionUpdates narrowChart = []"
  "animationFrames narrowChart = []"
  "updatePreviewSelectionCalls narrowChart = []"
  by (simp_all add: narrowChart_def narrowProps_def sampleProps_def setSize_def constructor_def
        getDefaultState_def getHorizontalViewport_def)

section \<open>Panning\<close>

lemma pannedViewport_Finite:
  assumes "w \<noteq> 0"
  shows "pannedViewport (Finite w) (Finite off) \<lparr> viewportLeft = Finite l, viewportRight = Finite r \<rparr> =
    (let u = (r - l) * off / w in
     if l - u < 0 then (if 1 < r - l then \<lparr> viewportLeft = Finite (1 - (r - l)), viewportRight = Finite 1 \<rparr>  
                        else \<lparr> viewportLeft = Finite 0, viewportRight = Finite (r - l) \<rparr>)
     else if 1 < r - u then \<lparr> viewportLeft = Finite (1 - (r - l)), viewportRight = Finite 1 \<rparr>
     else \<lparr> viewportLeft = Finite (l - u), viewportRight = Finite (r - u) \<rparr>)"
  using assms by (simp add: pannedViewport_def Let_def)

lemma moveViewport_queues:
  assumes "isSizeSet (state this)" "\<not> disableHorizontalMovement (viewportProps (props this))"
  shows "pendingPreviewSelectionUpdates (moveViewport offsetX offsetY this) =
         pendingPreviewSelectionUpdates this @
           [moveUpdate (timeRange (viewportProps (props this))) (containerWidth (state this)) offsetX]"
  using assms
  by (simp add: moveViewport_def Let_def addBatchedPreviewSelectionUpdate_def requestAnimationFrame_def split: prod.splits)

lemma moveUpdate_Finite:
  assumes "r - l < 1"
  shows "moveUpdate \<lparr> start = Finite s, end' = Finite e \<rparr> (Finite w) (Finite off) p
           \<lparr> viewportLeft = Finite l, viewportRight = Finite r \<rparr> =
         (let new = pannedViewport (Finite w) (Finite off) \<lparr> viewportLeft = Finite l, viewportRight = Finite r \<rparr> in
          Selection False (Finite s + Finite (e - s) * viewportLeft new) (Finite s + Finite (e - s) * viewportRight new))"
  using assms by (simp add: moveUpdate_def Let_def)

text \<open>
  C1 (as amended). A horizontal pan \<open>moveViewport offsetX offsetY\<close>, with horizontal
  movement enabled, the size set, a container width other than 0, finite arguments and a
  viewport of width below 1, queues an update whose viewport \<open>(l', r')\<close> has \<open>0 \<le> l'\<close>
  and \<open>r' \<le> 1\<close> and, over exact rational arithmetic, the width of the viewport before the
  pan; an offset that would push the left edge below 0 gives \<open>l' = 0\<close> and the same
  width. The returned selection is the image of \<open>(l', r')\<close> in the time range.

  The equality of the widths is one of exact arithmetic: the source computes the two edges
  \<open>left - unitOffsetX\<close> and \<open>right - unitOffsetX\<close> by two subtractions, each rounded to
  a double, and their difference is the old width up to that rounding only (in a
  container 800 pixels wide, the pan by -10 pixels of the viewport from 0.3 to 0.6, of
  width 0.3, gives the viewport from 0.30374999999999996 to 0.60375, of width
  0.30000000000000004). The two bounds do not depend on it: an edge below 0 or above 1 is
  replaced by 0 or 1.
\<close>

theorem moveViewport_pan_within_bounds:
  assumes sized: "isSizeSet (state this)"
    and horizontal: "\<not> disableHorizontalMovement (viewportProps (props this))"
    and width: "containerWidth (state this) = Finite w" "w \<noteq> 0"
    and trange: "timeRange (viewportProps (props this)) = \<lparr> start = Finite s, end' = Finite e \<rparr>"
    and len: "r - l < 1"
  shows "\<exists>l' r'.
     pannedViewport (Finite w) (Finite offsetX) \<lparr> viewportLeft = Finite l, viewportRight = Finite r \<rparr>
       = \<lparr> viewportLeft = Finite l', viewportRight = Finite r' \<rparr>
     \<and> last (pendingPreviewSelectionUpdates (moveViewport (Finite offsetX) offsetY this)) p
         \<lparr> viewportLeft = Finite l, viewportRight = Finite r \<rparr>
       = Selection False (Finite (s + (e - s) * l')) (Finite (s + (e - s) * r'))
     \<and> 0 \<le> l' \<and> r' \<le> 1 \<and> r' - l' = r - l
     \<and> (l - (r - l) * offsetX / w < 0 \<longrightarrow> l' = 0 \<and> r' = r - l)"
proof -
  let ?hv = "\<lparr> viewportLeft = Finite l, viewportRight = Finite r \<rparr>"
  let ?u = "(r - l) * offsetX / w"
  have q: "last (pendingPreviewSelectionUpdates (moveViewport (Finite offsetX) offsetY this)) =
           moveUpdate \<lparr> start = Finite s, end' = Finite e \<rparr> (Finite w) (Finite offsetX)"
    using moveViewport_queues [OF sized horizontal] width trange by simp
  consider (lo) "l - ?u < 0" | (hi) "\<not> l - ?u < 0" "1 < r - ?u" | (mid) "\<not> l - ?u < 0" "\<not> 1 < r - ?u"
    by blast
  then show ?thesis
  proof cases
    case lo
    with len width(2) show ?thesis
      by (intro exI [of _ 0] exI [of _ "r - l"])
         (simp add: q moveUpdate_Finite pannedViewport_Finite Let_def)
  next
    case hi
    with len width(2) show ?thesis
      by (intro exI [of _ "1 - (r - l)"] exI [of _ 1])
         (simp add: q moveUpdate_Finite pannedViewport_Finite Let_def)
  next
    case mid
    with len width(2) show ?thesis
      by (intro exI [of _ "l - ?u"] exI [of _ "r - ?u"])
         (simp add: q moveUpdate_Finite pannedViewport_Finite Let_def)
  qed
qed

theorem moveViewport_pan_within_bounds_witness:
  "isSizeSet (state sampleChart)
   \<and> \<not> disableHorizontalMovement (viewportProps (props sampleChart))
   \<and> containerWidth (state sampleChart) = Finite 1000 \<and> (1000::rat) \<noteq> 0
   \<and> timeRange (viewportProps (props sampleChart)) = \<lparr> start = Finite 0, end' = Finite 100 \<rparr>
   \<and> (3/4 - 1/4 :: rat) < 1
   \<and> (1/4 - (3/4 - 1/4) * 1000 / 1000 :: rat) < 0
   \<and> (\<exists>l' r'.
     pannedViewport (Finite 1000) (Finite 1000) \<lparr> viewportLeft = Finite (1/4), viewportRight = Finite (3/4) \<rparr>
       = \<lparr> viewportLeft = Finite l', viewportRight = Finite r' \<rparr>
     \<and> last (pendingPreviewSelectionUpdates (moveViewport (Finite 1000) (Finite 0) sampleChart))
          (props sampleChart) \<lparr> viewportLeft = Finite (1/4), viewportRight = Finite (3/4) \<rparr>
       = Selection False (Finite (0 + (100 - 0) * l')) (Finite (0 + (100 - 0) * r'))
     \<and> 0 \<le> l' \<and> r' \<le> 1 \<and> r' - l' = 3/4 - 1/4 \<and> l' = 0 \<and> r' = 3/4 - 1/4)"
  using moveViewport_pan_within_bounds [where this = sampleChart and w = 1000 and s = 0 and e = 100
      and l = "1/4" and r = "3/4" and offsetX = 1000 and offsetY = "Finite 0" and p = "props sampleChart"]
  by (simp add: sample_defs)

text \<open>
  C1 as stated fails for a container of width 0 (whose size is set, its height being 200):
  a pan by \<open>offsetX = 0\<close>, as a press of the up key makes, divides 0 by 0, and the
  viewport of the queued update is \<open>NaN\<close>, which is neither \<open>\<ge> 0\<close> nor \<open>\<le> 1\<close>. The
  next animation frame hands the selection from \<open>NaN\<close> to \<open>NaN\<close> to
  \<open>updatePreviewSelection\<close>.
\<close>

theorem moveViewport_pan_zero_width_counterexample:
  "isSizeSet (state zeroWidthChart)
   \<and> containerWidth (state zeroWidthChart) = Finite 0
   \<and> \<not> disableHorizontalMovement (viewportProps (props zeroWidthChart))
   \<and> horizontalViewport (state zeroWidthChart)
       = \<lparr> viewportLeft = Finite (1/4), viewportRight = Finite (3/4) \<rparr>
   \<and> last (pendingPreviewSelectionUpdates (moveViewport (Finite 0) (Finite 10) zeroWidthChart))
        (props zeroWidthChart) \<lparr> viewportLeft = Finite (1/4), viewportRight = Finite (3/4) \<rparr>
      = Selection False NaN NaN
   \<and> pannedViewport (Finite 0) (Finite 0) \<lparr> viewportLeft = Finite (1/4), viewportRight = Finite (3/4) \<rparr>
      = \<lparr> viewportLeft = NaN, viewportRight = NaN \<rparr>
   \<and> updatePreviewSelectionCalls
        (animationFrame (\<lambda>x y. Finite 1) (Finite 16) None
           (moveViewport (Finite 0) (Finite 10) zeroWidthChart))
      = [Selection False NaN NaN]
   \<and> \<not> (Finite 0 \<le> NaN) \<and> \<not> (NaN \<le> Finite 1)"
  by (simp add: zeroWidthChart_def sampleProps_def setSize_def constructor_def getDefaultState_def
        getHorizontalViewport_def moveViewport_def moveUpdate_def pannedViewport_def Let_def
        addBatchedPreviewSelectionUpdate_def requestAnimationFrame_def infinityOfSign_def
        less_eq_number_def minus_number_def animationFrame_def
        flushPendingPreviewSelectionUpdates_def)

section \<open>Zooming\<close>

lemma newViewportLength_Finite:
  "newViewportLength (Finite mz) (Finite zf) \<lparr> viewportLeft = Finite l, viewportRight = Finite r \<rparr> =
     Finite (max mz (min 1 ((r - l) * zf)))"
  by (simp add: newViewportLength_def)

lemma zoomedViewport_Finite:
  "zoomedViewport (Finite mz) (Finite c) (Finite zf) \<lparr> viewportLeft = Finite l, viewportRight = Finite r \<rparr> =
    (let L = max mz (min 1 ((r - l) * zf)); d = L - (r - l) in
     \<lparr> viewportLeft = Finite (max 0 (min (1 - L) (l - d * c))),
       viewportRight = Finite (max L (min 1 (r + d * (1 - c)))) \<rparr>)"
  by (simp add: zoomedViewport_def newViewportLength_Finite Let_def)

lemma zoom_width:
  fixes L :: rat
  assumes "d = L - (r - l)"
  shows "max L (min 1 (r + d * (1 - c))) - max 0 (min (1 - L) (l - d * c)) = L"
proof -
  have "r + d * (1 - c) = (l - d * c) + L"
    using assms by (simp add: algebra_simps)
  then show ?thesis by (simp add: max_def min_def)
qed

lemma zoomRangeSelection_queues:
  assumes "\<not> disableHorizontalMovement (viewportProps (props this))"
  shows "pendingPreviewSelectionUpdates (zoomRangeSelection center zoomFactor this) =
         pendingPreviewSelectionUpdates this @
           [zoomUpdate (maximumZoom (viewportProps (props this))) center zoomFactor]"
  using assms
  by (simp add: zoomRangeSelection_def Let_def addBatchedPreviewSelectionUpdate_def requestAnimationFrame_def)

lemma zoomUpdate_Finite:
  assumes "timeRange (viewportProps p) = \<lparr> start = Finite s, end' = Finite e \<rparr>"
    and "zoomedViewport maxZoom center zoomFactor hv = \<lparr> viewportLeft = Finite l', viewportRight = Finite r' \<rparr>"
  shows "zoomUpdate maxZoom center zoomFactor p hv =
     (if l' = 0 \<and> r' = 1 then NoSelection
      else Selection False (Finite (s + (e - s) * l')) (Finite (s + (e - s) * r')))"
  using assms by (simp add: zoomUpdate_def Let_def)

lemma zoomUpdate_hasSelection:
  "hasSelection (zoomUpdate maxZoom center zoomFactor p hv) =
     (\<not> (strictEquals (viewportLeft (zoomedViewport maxZoom center zoomFactor hv)) 0 \<and>
          strictEquals (viewportRight (zoomedViewport maxZoom center zoomFactor hv)) 1))"
  by (simp add: zoomUpdate_def Let_def)

lemma zoomed_full_width:
  fixes L :: rat
  assumes "L \<le> 1" "y = x + L"
  shows "(max 0 (min (1 - L) x) = 0 \<and> max L (min 1 y) = 1) = (1 \<le> L)"
proof (cases "1 \<le> L")
  case True
  with assms have "L = 1" by simp
  then show ?thesis by simp
next
  case False
  have "max L (min 1 y) - max 0 (min (1 - L) x) = L"
    using assms(2) by (simp add: max_def min_def)
  with False show ?thesis by auto
qed

text \<open>
  C2 (as amended). A zoom \<open>zoomRangeSelection center zoomFactor\<close> with a finite centre and
  zoom factor, horizontal movement enabled and \<open>maximumZoom \<le> 1\<close> queues an update whose
  viewport \<open>(l', r')\<close>, computed from the old length times the zoom factor and the clamps
  of left and right, has over exact rational arithmetic the width
  \<open>clamp(maximumZoom, 1, length * zoomFactor)\<close>: at least \<open>maximumZoom\<close> and at most 1. The
  update returns no selection for the viewport \<open>(0, 1)\<close> and the image of \<open>(l', r')\<close> in
  the time range otherwise.

  The width is that of exact arithmetic: the source clamps the two edges, each computed
  with its own rounding to a double, and their difference is the clamped length up to
  that rounding only, so that it can fall short of \<open>maximumZoom\<close> by a rounding error (with
  \<open>maximumZoom = 0.01\<close>, the zoom of the viewport from 0 to 0.1 by the factor 0.01 around
  the centre 0.1 gives the viewport from 0.009000000000000001 to 0.01899999999999999, of
  width 0.009999999999999988). The bound 1 does not depend on it: the left edge is
  clamped to 0 from below and the right edge to 1 from above.
\<close>

theorem zoom_width_bounds:
  assumes horizontal: "\<not> disableHorizontalMovement (viewportProps (props this))"
    and maxZoom: "maximumZoom (viewportProps (props this)) = Finite mz" "mz \<le> 1"
    and trange: "timeRange (viewportProps p) = \<lparr> start = Finite s, end' = Finite e \<rparr>"
  shows "\<exists>l' r'.
     zoomedViewport (Finite mz) (Finite c) (Finite zf) \<lparr> viewportLeft = Finite l, viewportRight = Finite r \<rparr>
       = \<lparr> viewportLeft = Finite l', viewportRight = Finite r' \<rparr>
     \<and> last (pendingPreviewSelectionUpdates (zoomRangeSelection (Finite c) (Finite zf) this)) p
         \<lparr> viewportLeft = Finite l, viewportRight = Finite r \<rparr>
       = (if l' = 0 \<and> r' = 1 then NoSelection
          else Selection False (Finite (s + (e - s) * l')) (Finite (s + (e - s) * r')))
     \<and> r' - l' = max mz (min 1 ((r - l) * zf))
     \<and> mz \<le> r' - l' \<and> r' - l' \<le> 1"
proof -
  let ?hv = "\<lparr> viewportLeft = Finite l, viewportRight = Finite r \<rparr>"
  let ?L = "max mz (min 1 ((r - l) * zf))"
  let ?d = "?L - (r - l)"
  let ?l' = "max 0 (min (1 - ?L) (l - ?d * c))"
  let ?r' = "max ?L (min 1 (r + ?d * (1 - c)))"
  have w: "?r' - ?l' = ?L" by (rule zoom_width) simp
  have v: "zoomedViewport (Finite mz) (Finite c) (Finite zf) ?hv
       = \<lparr> viewportLeft = Finite ?l', viewportRight = Finite ?r' \<rparr>"
    by (simp add: zoomedViewport_Finite Let_def)
  have "last (pendingPreviewSelectionUpdates (zoomRangeSelection (Finite c) (Finite zf) this))
       = zoomUpdate (Finite mz) (Finite c) (Finite zf)"
    using zoomRangeSelection_queues [OF horizontal] maxZoom by simp
  then have q: "last (pendingPreviewSelectionUpdates (zoomRangeSelection (Finite c) (Finite zf) this)) p ?hv
       = (if ?l' = 0 \<and> ?r' = 1 then NoSelection
          else Selection False (Finite (s + (e - s) * ?l')) (Finite (s + (e - s) * ?r')))"
    using zoomUpdate_Finite [OF trange v] by simp
  have b: "mz \<le> ?L" "?L \<le> 1" using maxZoom(2) by simp_all
  show ?thesis
    using q v w b by (intro exI [of _ ?l'] exI [of _ ?r']) (simp only: simp_thms)
qed

theorem zoom_width_bounds_witness:
  "\<not> disableHorizontalMovement (viewportProps (props sampleChart))
   \<and> maximumZoom (viewportProps (props sampleChart)) = Finite (1/100) \<and> (1/100 :: rat) \<le> 1
   \<and> timeRange (viewportProps sampleProps) = \<lparr> start = Finite 0, end' = Finite 100 \<rparr>
   \<and> (\<exists>l' r'.
     zoomedViewport (Finite (1/100)) (Finite (1/2)) (Finite (1/2)) \<lparr> viewportLeft = Finite 0, viewportRight = Finite 1 \<rparr>
       = \<lparr> viewportLeft = Finite l', viewportRight = Finite r' \<rparr>
     \<and> last (pendingPreviewSelectionUpdates (zoomRangeSelection (Finite (1/2)) (Finite (1/2)) sampleChart)) sampleProps
         \<lparr> viewportLeft = Finite 0, viewportRight = Finite 1 \<rparr>
       = (if l' = 0 \<and> r' = 1 then NoSelection
          else Selection False (Finite (0 + (100 - 0) * l')) (Finite (0 + (100 - 0) * r')))
     \<and> r' - l' = max (1/100) (min 1 ((1 - 0) * (1/2)))
     \<and> 1/100 \<le> r' - l' \<and> r' - l' \<le> 1)"
  using zoom_width_bounds [where this = sampleChart and mz = "1/100" and p = sampleProps and s = 0
      and e = 100 and c = "1/2" and zf = "1/2" and l = 0 and r = 1]
  by (simp add: sample_defs)

text \<open>
  C2 as stated fails for a centre that is not a finite number. \<open>zoomWithMouseWheel\<close> divides
  the position of the mouse by the width of the container without its margins: when
  nothing is left between the margins and the mouse is at the end of the left margin, the
  centre is \<open>0 / 0\<close>. Both edges of the viewport of the queued update are then \<open>NaN\<close>,
  and so is the width, which is neither \<open>\<ge> maximumZoom\<close> nor \<open>\<le> 1\<close>, although
  \<open>0 < maximumZoom \<le> 1\<close> and the starting viewport \<open>(1/4, 3/4)\<close> is valid. The next
  animation frame hands the selection from \<open>NaN\<close> to \<open>NaN\<close> to
  \<open>updatePreviewSelection\<close>.
\<close>

theorem zoom_width_nan_centre_counterexample:
  "isSizeSet (state narrowChart)
   \<and> \<not> disableHorizontalMovement (viewportProps (props narrowChart))
   \<and> maximumZoom (viewportProps (props narrowChart)) = Finite (1/100)
   \<and> horizontalViewport (state narrowChart)
       = \<lparr> viewportLeft = Finite (1/4), viewportRight = Finite (3/4) \<rparr>
   \<and> pendingPreviewSelectionUpdates
        (mouseWheelListener (\<lambda>x y. Finite (3/4)) sampleShiftWheel narrowChart)
       = [zoomUpdate (Finite (1/100)) NaN (Finite (3/4))]
   \<and> zoomedViewport (Finite (1/100)) NaN (Finite (3/4))
         \<lparr> viewportLeft = Finite (1/4), viewportRight = Finite (3/4) \<rparr>
       = \<lparr> viewportLeft = NaN, viewportRight = NaN \<rparr>
   \<and> \<not> (Finite (1/100) \<le> NaN - NaN) \<and> \<not> (NaN - NaN \<le> Finite 1)
   \<and> updatePreviewSelectionCalls
        (animationFrame (\<lambda>x y. Finite (3/4)) (Finite 16) None
           (mouseWheelListener (\<lambda>x y. Finite (3/4)) sampleShiftWheel narrowChart))
       = [Selection False NaN NaN]"
  by (simp add: narrowChart_facts mouseWheelListener_def zoomWithMouseWheel_def sampleShiftWheel_def
        getNormalizedScrollDelta_def DOM_DELTA_PAGE_def DOM_DELTA_LINE_def deltaToZoomFactor_def
        zoomRangeSelection_def zoomUpdate_def zoomedViewport_def newViewportLength_def clamp_def
        Math_min_def Math_max_def strictEquals_def
        Let_def infinityOfSign_def less_eq_number_def minus_number_def animationFrame_def
        addBatchedPreviewSelectionUpdate_def requestAnimationFrame_def
        flushPendingPreviewSelectionUpdates_def getHorizontalViewport_def)

text \<open>
  C3 (as amended). A zoom anchored at \<open>c\<close> keeps the position at \<open>c\<close> of the viewport,
  \<open>left + (right - left) * c\<close>, where it was, provided no clamp of an edge applies: the
  left edge anchored at \<open>c\<close>, \<open>left - (L - (right - left)) * c\<close> for the new length \<open>L\<close>, lies
  between 0 and \<open>1 - L\<close>.
\<close>

theorem zoom_anchor_invariant:
  assumes horizontal: "\<not> disableHorizontalMovement (viewportProps (props this))"
    and maxZoom: "maximumZoom (viewportProps (props this)) = Finite mz"
    and L: "L = max mz (min 1 ((r - l) * zf))"
    and lo: "0 \<le> l - (L - (r - l)) * c"
    and hi: "l - (L - (r - l)) * c \<le> 1 - L"
  shows "\<exists>l' r'.
     last (pendingPreviewSelectionUpdates (zoomRangeSelection (Finite c) (Finite zf) this))
       = zoomUpdate (Finite mz) (Finite c) (Finite zf)
     \<and> zoomedViewport (Finite mz) (Finite c) (Finite zf) \<lparr> viewportLeft = Finite l, viewportRight = Finite r \<rparr>
       = \<lparr> viewportLeft = Finite l', viewportRight = Finite r' \<rparr>
     \<and> newViewportLength (Finite mz) (Finite zf) \<lparr> viewportLeft = Finite l, viewportRight = Finite r \<rparr> = Finite L
     \<and> l' + (r' - l') * c = l + (r - l) * c"
proof -
  let ?d = "L - (r - l)"
  let ?l' = "l - ?d * c"
  let ?r' = "r + ?d * (1 - c)"
  have e: "?r' = ?l' + L" by (simp add: algebra_simps)
  have l': "max 0 (min (1 - L) ?l') = ?l'" using lo hi by simp
  have r': "max L (min 1 ?r') = ?r'" using lo hi unfolding e by simp
  have v: "zoomedViewport (Finite mz) (Finite c) (Finite zf) \<lparr> viewportLeft = Finite l, viewportRight = Finite r \<rparr>
       = \<lparr> viewportLeft = Finite ?l', viewportRight = Finite ?r' \<rparr>"
    unfolding zoomedViewport_Finite Let_def L [symmetric] using l' r' by simp
  have a: "?l' + (?r' - ?l') * c = l + (r - l) * c" by (simp add: algebra_simps)
  have n: "newViewportLength (Finite mz) (Finite zf) \<lparr> viewportLeft = Finite l, viewportRight = Finite r \<rparr> = Finite L"
    by (simp add: newViewportLength_Finite L)
  have q: "last (pendingPreviewSelectionUpdates (zoomRangeSelection (Finite c) (Finite zf) this))
       = zoomUpdate (Finite mz) (Finite c) (Finite zf)"
    using zoomRangeSelection_queues [OF horizontal] maxZoom by simp
  show ?thesis using q v a n by blast
qed

theorem zoom_anchor_invariant_witness:
  "\<not> disableHorizontalMovement (viewportProps (props sampleChart))
   \<and> maximumZoom (viewportProps (props sampleChart)) = Finite (1/100)
   \<and> (1/2 :: rat) = max (1/100) (min 1 ((1 - 0) * (1/2)))
   \<and> (0::rat) \<le> 0 - (1/2 - (1 - 0)) * (1/2)
   \<and> (0::rat) - (1/2 - (1 - 0)) * (1/2) \<le> 1 - 1/2
   \<and> (\<exists>l' r'.
     last (pendingPreviewSelectionUpdates (zoomRangeSelection (Finite (1/2)) (Finite (1/2)) sampleChart))
       = zoomUpdate (Finite (1/100)) (Finite (1/2)) (Finite (1/2))
     \<and> zoomedViewport (Finite (1/100)) (Finite (1/2)) (Finite (1/2)) \<lparr> viewportLeft = Finite 0, viewportRight = Finite 1 \<rparr>
       = \<lparr> viewportLeft = Finite l', viewportRight = Finite r' \<rparr>
     \<and> newViewportLength (Finite (1/100)) (Finite (1/2)) \<lparr> viewportLeft = Finite 0, viewportRight = Finite 1 \<rparr>
       = Finite (1/2)
     \<and> l' + (r' - l') * (1/2) = 0 + (1 - 0) * (1/2))"
  using zoom_anchor_invariant [where this = sampleChart and mz = "1/100" and L = "1/2" and c = "1/2"
      and zf = "1/2" and l = 0 and r = 1]
  by (simp add: sample_defs)

text \<open>
  C3 as stated fails when a clamp of the left or right edge applies: zooming the viewport
  \<open>(0, 1/2)\<close> out by the factor 2 around its centre \<open>1/2\<close> gives \<open>(0, 1)\<close>, no
  selection, and the position at \<open>1/2\<close> of the viewport moves from \<open>1/4\<close> to \<open>1/2\<close>
  of the time range.
\<close>

theorem zoom_anchor_counterexample:
  "last (pendingPreviewSelectionUpdates (zoomRangeSelection (Finite (1/2)) (Finite 2) sampleChart))
     sampleProps \<lparr> viewportLeft = Finite 0, viewportRight = Finite (1/2) \<rparr> = NoSelection
   \<and> getHorizontalViewport NoSelection (timeRange (viewportProps sampleProps))
     = \<lparr> viewportLeft = Finite 0, viewportRight = Finite 1 \<rparr>
   \<and> zoomedViewport (Finite (1/100)) (Finite (1/2)) (Finite 2) \<lparr> viewportLeft = Finite 0, viewportRight = Finite (1/2) \<rparr>
     = \<lparr> viewportLeft = Finite 0, viewportRight = Finite 1 \<rparr>
   \<and> (0 + (1/2 - 0) * (1/2) :: rat) \<noteq> 0 + (1 - 0) * (1/2)"
  by (simp add: zoomedViewport_Finite sample_defs zoomRangeSelection_def zoomUpdate_def
        addBatchedPreviewSelectionUpdate_def requestAnimationFrame_def)

text \<open>
  C5 (as amended). With \<open>maximumZoom \<le> 1\<close>, the update queued by a zoom returns a selection
  exactly when the width of the viewport it computes is below 1, and no selection when
  that width is 1 or more; the update queued by a pan returns a selection exactly when
  the width of the viewport it is given is below 1, and no selection otherwise.
\<close>

theorem full_width_collapses:
  assumes horizontal: "\<not> disableHorizontalMovement (viewportProps (props this))"
    and sized: "isSizeSet (state this)"
    and maxZoom: "maximumZoom (viewportProps (props this)) = Finite mz" "mz \<le> 1"
  shows "(let hv = \<lparr> viewportLeft = Finite l, viewportRight = Finite r \<rparr>;
              zv = zoomedViewport (Finite mz) (Finite c) (Finite zf) hv
          in hasSelection
               (last (pendingPreviewSelectionUpdates (zoomRangeSelection (Finite c) (Finite zf) this)) p hv)
             = (\<not> 1 \<le> viewportRight zv - viewportLeft zv))
       \<and> hasSelection
           (last (pendingPreviewSelectionUpdates (moveViewport offsetX offsetY this)) p hv)
         = (\<not> 1 \<le> viewportRight hv - viewportLeft hv)"
proof -
  let ?hv = "\<lparr> viewportLeft = Finite l, viewportRight = Finite r \<rparr>"
  let ?L = "max mz (min 1 ((r - l) * zf))"
  let ?d = "?L - (r - l)"
  let ?l' = "max 0 (min (1 - ?L) (l - ?d * c))"
  let ?r' = "max ?L (min 1 (r + ?d * (1 - c)))"
  have zv: "zoomedViewport (Finite mz) (Finite c) (Finite zf) ?hv
            = \<lparr> viewportLeft = Finite ?l', viewportRight = Finite ?r' \<rparr>"
    by (simp add: zoomedViewport_Finite Let_def)
  have w: "?r' - ?l' = ?L" by (rule zoom_width) simp
  have full: "(?l' = 0 \<and> ?r' = 1) = (1 \<le> ?L)"
  proof (rule zoomed_full_width)
    show "?L \<le> 1" using maxZoom(2) by simp
    show "r + ?d * (1 - c) = l - ?d * c + ?L" by (simp add: algebra_simps)
  qed
  have q: "last (pendingPreviewSelectionUpdates (zoomRangeSelection (Finite c) (Finite zf) this))
       = zoomUpdate (Finite mz) (Finite c) (Finite zf)"
    using zoomRangeSelection_queues [OF horizontal] maxZoom by simp
  have "hasSelection (zoomUpdate (Finite mz) (Finite c) (Finite zf) p ?hv) = (\<not> (?l' = 0 \<and> ?r' = 1))"
    by (simp only: zoomUpdate_hasSelection zv HorizontalViewport.simps zero_number_Finite
          one_number_Finite strictEquals_Finite)
  also have "\<dots> = (\<not> 1 \<le> ?r' - ?l')"
    unfolding full w ..
  finally have z: "hasSelection (zoomUpdate (Finite mz) (Finite c) (Finite zf) p ?hv)
                   = (\<not> 1 \<le> ?r' - ?l')" .
  have m: "hasSelection
           (last (pendingPreviewSelectionUpdates (moveViewport offsetX offsetY this)) p hv)
         = (\<not> 1 \<le> viewportRight hv - viewportLeft hv)"
    using moveViewport_queues [OF sized horizontal] by (simp add: moveUpdate_def Let_def)
  show ?thesis
    unfolding Let_def q zv using z m by simp
qed

theorem full_width_collapses_witness:
  "\<not> disableHorizontalMovement (viewportProps (props sampleChart))
   \<and> isSizeSet (state sampleChart)
   \<and> maximumZoom (viewportProps (props sampleChart)) = Finite (1/100) \<and> (1/100 :: rat) \<le> 1
   \<and> hasSelection
        (last (pendingPreviewSelectionUpdates (zoomRangeSelection (Finite (1/2)) (Finite (1/2)) sampleChart))
           sampleProps \<lparr> viewportLeft = Finite 0, viewportRight = Finite 1 \<rparr>)
   \<and> \<not> hasSelection
        (last (pendingPreviewSelectionUpdates (zoomRangeSelection (Finite (1/2)) (Finite 4) sampleChart))
           sampleProps \<lparr> viewportLeft = Finite (1/4), viewportRight = Finite (3/4) \<rparr>)
   \<and> hasSelection
        (last (pendingPreviewSelectionUpdates (moveViewport (Finite 10) (Finite 0) sampleChart))
           sampleProps \<lparr> viewportLeft = Finite (1/4), viewportRight = Finite (3/4) \<rparr>)
   \<and> \<not> hasSelection
        (last (pendingPreviewSelectionUpdates (moveViewport (Finite 10) (Finite 0) sampleChart))
           sampleProps \<lparr> viewportLeft = Finite 0, viewportRight = Finite 1 \<rparr>)"
  using
    full_width_collapses [where this = sampleChart and mz = "1/100" and c = "1/2" and zf = "1/2"
      and l = 0 and r = 1 and p = sampleProps and offsetX = "Finite 10" and offsetY = "Finite 0"
      and hv = "\<lparr> viewportLeft = Finite (1/4), viewportRight = Finite (3/4) \<rparr>"]
    full_width_collapses [where this = sampleChart and mz = "1/100" and c = "1/2" and zf = 4
      and l = "1/4" and r = "3/4" and p = sampleProps and offsetX = "Finite 10" and offsetY = "Finite 0"
      and hv = "\<lparr> viewportLeft = Finite 0, viewportRight = Finite 1 \<rparr>"]
  by (simp add: sampleChart_facts zoomedViewport_Finite)

text \<open>
  C5 as stated fails for a \<open>maximumZoom\<close> above 1: the new length is then
  \<open>maximumZoom\<close>, the zoom of the full viewport returns the viewport \<open>(0, 2)\<close>, of width
  \<open>2 \<ge> 1\<close>, and a selection (from 0 to 200 in the time range from 0 to 100).
\<close>

theorem full_width_counterexample:
  "zoomedViewport (Finite 2) (Finite (1/2)) (Finite 1) \<lparr> viewportLeft = Finite 0, viewportRight = Finite 1 \<rparr>
     = \<lparr> viewportLeft = Finite 0, viewportRight = Finite 2 \<rparr>
   \<and> zoomUpdate (Finite 2) (Finite (1/2)) (Finite 1) sampleProps \<lparr> viewportLeft = Finite 0, viewportRight = Finite 1 \<rparr>
     = Selection False (Finite 0) (Finite 200)
   \<and> hasSelection (zoomUpdate (Finite 2) (Finite (1/2)) (Finite 1) sampleProps \<lparr> viewportLeft = Finite 0, viewportRight = Finite 1 \<rparr>)
   \<and> Finite 1 \<le> Finite 2 - Finite 0"
  by (simp add: zoomedViewport_Finite zoomUpdate_def sampleProps_def)

section \<open>Vertical panning\<close>

lemma moveViewport_vertical:
  assumes sized: "isSizeSet (state this)"
    and fin: "viewportTop (state this) = Finite t" "viewportBottom (state this) = Finite b"
      "containerHeight (state this) = Finite h"
      "maxViewportHeight (viewportProps (props this)) = Finite m"
    and inv: "b - t = h"
  shows "state (moveViewport offsetX (Finite offsetY) this) =
     (let (t', b') =
        (if m < h then (if startsAtBottom (viewportProps (props this)) then (m - h, m) else (0, h))
         else if m < t - offsetY + h then (m - h, m)
         else if t - offsetY < 0 then (0, h)
         else (t - offsetY, t - offsetY + h))
      in (state this)\<lparr> viewportTop := Finite t', viewportBottom := Finite b' \<rparr>)"
proof -
  have same: "(state this)\<lparr> viewportTop := Finite t, viewportBottom := Finite (t + h) \<rparr> = state this"
    using fin inv by (cases "state this") (simp add: algebra_simps)
  have sub: "state (addBatchedPreviewSelectionUpdate cb x) = state x" for cb x
    by (simp add: addBatchedPreviewSelectionUpdate_def requestAnimationFrame_def Let_def)
  show ?thesis
    using sized fin same
    by (auto simp: moveViewport_def Let_def sub)
qed


section \<open>Batched updates\<close>

lemma addBatched_fields [simp]:
  "props (addBatchedPreviewSelectionUpdate callback this) = props this"
  "state (addBatchedPreviewSelectionUpdate callback this) = state this"
  "updatePreviewSelectionCalls (addBatchedPreviewSelectionUpdate callback this)
     = updatePreviewSelectionCalls this"
  "pendingPreviewSelectionUpdates (addBatchedPreviewSelectionUpdate callback this)
     = pendingPreviewSelectionUpdates this @ [callback]"
  "animationFrames (addBatchedPreviewSelectionUpdate callback this)
     = animationFrames this @
       (if pendingPreviewSelectionUpdates this = [] then [FlushPendingPreviewSelectionUpdates] else [])"
  by (simp_all add: addBatchedPreviewSelectionUpdate_def requestAnimationFrame_def Let_def)

lemma addBatched_all:
  "props (foldl (\<lambda>t callback. addBatchedPreviewSelectionUpdate callback t) this callbacks) = props this"
  "updatePreviewSelectionCalls (foldl (\<lambda>t callback. addBatchedPreviewSelectionUpdate callback t) this callbacks)
     = updatePreviewSelectionCalls this"
  "pendingPreviewSelectionUpdates (foldl (\<lambda>t callback. addBatchedPreviewSelectionUpdate callback t) this callbacks)
     = pendingPreviewSelectionUpdates this @ callbacks"
  "animationFrames (foldl (\<lambda>t callback. addBatchedPreviewSelectionUpdate callback t) this callbacks)
     = animationFrames this @
       (if pendingPreviewSelectionUpdates this = [] \<and> callbacks \<noteq> []
        then [FlushPendingPreviewSelectionUpdates] else [])"
  by (induction callbacks arbitrary: this) simp_all

lemma applyPendingUpdates_foldl:
  "applyPendingUpdates callbacks p tRange selection =
     foldl (\<lambda>sel callback. callback p (getHorizontalViewport sel tRange)) selection callbacks"
  by (induction callbacks arbitrary: selection) (simp_all add: Let_def)

lemma flushInvariant_fields [simp]:
  "flushInvariant running (this\<lparr> state := s \<rparr>) = flushInvariant running this"
  "flushInvariant running (this\<lparr> props := p \<rparr>) = flushInvariant running this"
  "flushInvariant running (this\<lparr> keysDown := ks \<rparr>) = flushInvariant running this"
  "flushInvariant running (this\<lparr> lastKeyboardNavigationFrame := n \<rparr>) = flushInvariant running this"
  "flushInvariant running (this\<lparr> updatePreviewSelectionCalls := cs \<rparr>) = flushInvariant running this"
  "flushInvariant running (this\<lparr> zoomScrollId := n' \<rparr>) = flushInvariant running this"
  "flushInvariant running (this\<lparr> scrollHintTimeouts := ts \<rparr>) = flushInvariant running this"
  "flushInvariant running (this\<lparr> setHasZoomedViaMousewheelCalls := n'' \<rparr>) = flushInvariant running this"
  "flushInvariant running (requestAnimationFrame KeyboardNavigation this) = flushInvariant running this"
  "flushInvariant running (requestAnimationFrame SetSize this) = flushInvariant running this"
  by (simp_all add: flushInvariant_def requestAnimationFrame_def)

lemma addBatched_flushInvariant:
  "flushInvariant running this \<Longrightarrow>
   flushInvariant running (addBatchedPreviewSelectionUpdate callback this)"
  by (simp add: flushInvariant_def split: if_splits)

lemma moveViewport_flushInvariant:
  "flushInvariant running this \<Longrightarrow> flushInvariant running (moveViewport offsetX offsetY this)"
  by (simp add: moveViewport_def Let_def addBatched_flushInvariant split: prod.splits)

lemma zoomRangeSelection_flushInvariant:
  "flushInvariant running this \<Longrightarrow>
   flushInvariant running (zoomRangeSelection center zoomFactor this)"
  by (simp add: zoomRangeSelection_def addBatched_flushInvariant)

lemma navigate_flushInvariant:
  "flushInvariant running this \<Longrightarrow> flushInvariant running (navigate pow delta key this)"
  by (cases key) (simp_all add: moveViewport_flushInvariant zoomRangeSelection_flushInvariant)

lemma navigate_all_flushInvariant:
  "flushInvariant running this \<Longrightarrow>
   flushInvariant running (foldl (\<lambda>t key. navigate pow delta key t) this keys)"
  by (induction keys arbitrary: this) (simp_all add: navigate_flushInvariant)

lemma keyboardNavigation_flushInvariant:
  "flushInvariant running this \<Longrightarrow>
   flushInvariant running (keyboardNavigation pow timestamp this)"
  by (simp add: keyboardNavigation_def Let_def navigate_all_flushInvariant)

lemma setSize_flushInvariant:
  "flushInvariant running this \<Longrightarrow> flushInvariant running (setSize container this)"
  by (simp add: setSize_def Let_def split: option.splits)

lemma receiveProps_flushInvariant:
  "flushInvariant running this \<Longrightarrow>
   flushInvariant running (UNSAFE_componentWillReceiveProps needsUpdate replaced newProps this)"
  by (simp add: UNSAFE_componentWillReceiveProps_def setSizeNextFrame_def Let_def)

lemma mouseMove_flushInvariant:
  "flushInvariant running this \<Longrightarrow>
   flushInvariant running (mouseMoveListener clientX clientY this)"
  by (simp add: mouseMoveListener_def Let_def moveViewport_flushInvariant split: prod.splits)

lemma keyDown_flushInvariant:
  "flushInvariant running this \<Longrightarrow> flushInvariant running (keyDownListener event now this)"
  by (simp add: keyDownListener_def Let_def split: option.splits)

lemma keyUp_flushInvariant:
  "flushInvariant running this \<Longrightarrow> flushInvariant running (keyUpListener event this)"
  by (simp add: keyUpListener_def Let_def)

lemma showScrollingHint_flushInvariant:
  "flushInvariant running this \<Longrightarrow> flushInvariant running (showScrollingHint this)"
  by (simp add: showScrollingHint_def Let_def)

lemma scrollHintTimeout_flushInvariant:
  "flushInvariant running this \<Longrightarrow> flushInvariant running (scrollHintTimeout this)"
  by (simp add: scrollHintTimeout_def Let_def split: list.splits)

lemma zoomWithMouseWheel_flushInvariant:
  "flushInvariant running this \<Longrightarrow>
   flushInvariant running (zoomWithMouseWheel pow event zoomModifier this)"
  by (simp add: zoomWithMouseWheel_def Let_def zoomRangeSelection_flushInvariant)

lemma mouseWheel_flushInvariant:
  "flushInvariant running this \<Longrightarrow> flushInvariant running (mouseWheelListener pow event this)"
  by (simp add: mouseWheelListener_def Let_def zoomWithMouseWheel_flushInvariant
        moveViewport_flushInvariant showScrollingHint_flushInvariant)

lemma calls_unchanged [simp]:
  "updatePreviewSelectionCalls (moveViewport offsetX offsetY this) = updatePreviewSelectionCalls this"
  "updatePreviewSelectionCalls (zoomRangeSelection center zoomFactor this)
     = updatePreviewSelectionCalls this"
  "updatePreviewSelectionCalls (setSize container this) = updatePreviewSelectionCalls this"
  by (simp_all add: moveViewport_def zoomRangeSelection_def setSize_def Let_def
        split: prod.splits option.splits)

lemma navigate_calls [simp]:
  "updatePreviewSelectionCalls (navigate pow delta key this) = updatePreviewSelectionCalls this"
  by (cases key) simp_all

lemma navigate_all_calls [simp]:
  "updatePreviewSelectionCalls (foldl (\<lambda>t key. navigate pow delta key t) this keys)
     = updatePreviewSelectionCalls this"
  by (induction keys arbitrary: this) simp_all

lemma keyboardNavigation_calls [simp]:
  "updatePreviewSelectionCalls (keyboardNavigation pow timestamp this)
     = updatePreviewSelectionCalls this"
  by (simp add: keyboardNavigation_def Let_def requestAnimationFrame_def)

lemma flush_step:
  assumes "flushInvariant (FlushPendingPreviewSelectionUpdates # running) this"
  shows "flushInvariant running (flushPendingPreviewSelectionUpdates this)"
    and "length (updatePreviewSelectionCalls (flushPendingPreviewSelectionUpdates this))
         = length (updatePreviewSelectionCalls this) + 1"
proof -
  from assms have "pendingPreviewSelectionUpdates this \<noteq> []"
    by (auto simp: flushInvariant_def split: if_splits)
  with assms show "flushInvariant running (flushPendingPreviewSelectionUpdates this)"
    and "length (updatePreviewSelectionCalls (flushPendingPreviewSelectionUpdates this))
         = length (updatePreviewSelectionCalls this) + 1"
    by (simp_all add: flushInvariant_def flushPendingPreviewSelectionUpdates_def Let_def)
qed

lemma other_step:
  assumes "flushInvariant (callback # running) this"
    and "callback \<noteq> FlushPendingPreviewSelectionUpdates"
  shows "flushInvariant running this"
  using assms by (simp add: flushInvariant_def)

lemma runCallbacks_flush:
  assumes "flushInvariant callbacks this"
  shows "flushInvariant [] (foldl (\<lambda>t callback. runCallback pow timestamp container callback t) this callbacks)
       \<and> length (updatePreviewSelectionCalls
            (foldl (\<lambda>t callback. runCallback pow timestamp container callback t) this callbacks))
         = length (updatePreviewSelectionCalls this)
           + count_list callbacks FlushPendingPreviewSelectionUpdates"
  using assms
proof (induction callbacks arbitrary: this)
  case Nil
  then show ?case by simp
next
  case (Cons callback callbacks)
  let ?next = "runCallback pow timestamp container callback this"
  have step: "flushInvariant callbacks ?next
            \<and> length (updatePreviewSelectionCalls ?next)
              = length (updatePreviewSelectionCalls this)
                + (if callback = FlushPendingPreviewSelectionUpdates then 1 else 0)"
  proof (cases callback)
    case FlushPendingPreviewSelectionUpdates
    with flush_step [of callbacks this] Cons.prems show ?thesis by simp
  next
    case KeyboardNavigation
    with other_step [OF Cons.prems] show ?thesis
      by (simp add: keyboardNavigation_flushInvariant)
  next
    case SetSize
    with other_step [OF Cons.prems] show ?thesis
      by (simp add: setSize_flushInvariant)
  qed
  from Cons.IH [of ?next] step show ?case by simp
qed

lemma animationFrame_flush:
  assumes "flushInvariant [] this"
  shows "flushInvariant [] (animationFrame pow timestamp container this)"
    and "length (updatePreviewSelectionCalls (animationFrame pow timestamp container this))
         = length (updatePreviewSelectionCalls this)
           + (if pendingPreviewSelectionUpdates this = [] then 0 else 1)"
proof -
  have start: "flushInvariant (animationFrames this) (this\<lparr> animationFrames := [] \<rparr>)"
    using assms by (simp add: flushInvariant_def)
  from runCallbacks_flush [OF start]
  show "flushInvariant [] (animationFrame pow timestamp container this)"
    by (simp add: animationFrame_def)
  from runCallbacks_flush [OF start, of pow timestamp container] assms
  show "length (updatePreviewSelectionCalls (animationFrame pow timestamp container this))
         = length (updatePreviewSelectionCalls this)
           + (if pendingPreviewSelectionUpdates this = [] then 0 else 1)"
    by (simp add: animationFrame_def flushInvariant_def)
qed

lemma handle_flushInvariant:
  assumes "flushInvariant [] this"
  shows "flushInvariant [] (handle pow event this)"
  using assms
  by (cases event)
     (simp_all add: setSize_flushInvariant receiveProps_flushInvariant moveViewport_flushInvariant
        zoomRangeSelection_flushInvariant mouseMove_flushInvariant mouseUpListener_def
        keyDown_flushInvariant keyUp_flushInvariant mouseWheel_flushInvariant
        scrollHintTimeout_flushInvariant animationFrame_flush)

lemma run_flushInvariant:
  assumes "flushInvariant [] this"
  shows "flushInvariant [] (foldl (\<lambda>t event. handle pow event t) this events)"
  using assms
  by (induction events arbitrary: this) (simp_all add: handle_flushInvariant)

lemma constructor_flushInvariant: "flushInvariant [] (constructor p)"
  by (simp add: flushInvariant_def constructor_def)

text \<open>
  C7. When updates are queued on a component with no pending update, exactly one flush
  is requested however many they are, and the animation frame that runs it makes exactly
  one call of \<open>updatePreviewSelection\<close>: with the updates folded in the order they were
  queued, each one applied to the horizontal viewport of the selection the previous one
  returned, the first one to that of the current preview selection. Nothing is pending
  or requested afterwards. In every state reached from the constructor, an animation
  frame makes exactly one call when an update is pending, however many are, and none
  otherwise.
\<close>

theorem flush_folds_in_order:
  assumes "pendingPreviewSelectionUpdates this = []" and "animationFrames this = []"
    and "callbacks \<noteq> []"
  shows "(let queued = foldl (\<lambda>t callback. addBatchedPreviewSelectionUpdate callback t) this callbacks;
              flushed = animationFrame pow timestamp container queued
          in animationFrames queued = [FlushPendingPreviewSelectionUpdates]
             \<and> pendingPreviewSelectionUpdates queued = callbacks
             \<and> updatePreviewSelectionCalls flushed =
                 updatePreviewSelectionCalls this @
                 [foldl (\<lambda>selection callback.
                      callback (props this)
                        (getHorizontalViewport selection (timeRange (viewportProps (props this)))))
                    (previewSelection (viewportProps (props this))) callbacks]
             \<and> pendingPreviewSelectionUpdates flushed = []
             \<and> animationFrames flushed = [])
       \<and> (let reached = foldl (\<lambda>t event. handle pow event t) (constructor initialProps) events;
                after = animationFrame pow timestamp container reached
            in length (updatePreviewSelectionCalls after) =
                 length (updatePreviewSelectionCalls reached)
                 + (if pendingPreviewSelectionUpdates reached = [] then 0 else 1))"
proof -
  have queued: "(let queued = foldl (\<lambda>t callback. addBatchedPreviewSelectionUpdate callback t) this callbacks;
              flushed = animationFrame pow timestamp container queued
          in animationFrames queued = [FlushPendingPreviewSelectionUpdates]
             \<and> pendingPreviewSelectionUpdates queued = callbacks
             \<and> updatePreviewSelectionCalls flushed =
                 updatePreviewSelectionCalls this @
                 [foldl (\<lambda>selection callback.
                      callback (props this)
                        (getHorizontalViewport selection (timeRange (viewportProps (props this)))))
                    (previewSelection (viewportProps (props this))) callbacks]
             \<and> pendingPreviewSelectionUpdates flushed = []
             \<and> animationFrames flushed = [])"
    using assms
    by (simp add: Let_def addBatched_all animationFrame_def flushPendingPreviewSelectionUpdates_def
          applyPendingUpdates_foldl)
  have reached: "(let reached = foldl (\<lambda>t event. handle pow event t) (constructor initialProps) events;
                after = animationFrame pow timestamp container reached
            in length (updatePreviewSelectionCalls after) =
                 length (updatePreviewSelectionCalls reached)
                 + (if pendingPreviewSelectionUpdates reached = [] then 0 else 1))"
    unfolding Let_def
    by (rule animationFrame_flush) (rule run_flushInvariant, rule constructor_flushInvariant)
  from queued reached show ?thesis by (rule conjI)
qed

theorem flush_folds_in_order_witness:
  "pendingPreviewSelectionUpdates sampleChart = [] \<and> animationFrames sampleChart = []
   \<and> [moveUpdate (timeRange (viewportProps sampleProps)) (Finite 1000) (Finite 100),
       zoomUpdate (Finite (1/100)) (Finite (1/2)) (Finite (1/2))] \<noteq> []
   \<and> (let queued = foldl (\<lambda>t callback. addBatchedPreviewSelectionUpdate callback t) sampleChart
                      [moveUpdate (timeRange (viewportProps sampleProps)) (Finite 1000) (Finite 100),
                       zoomUpdate (Finite (1/100)) (Finite (1/2)) (Finite (1/2))];
            flushed = animationFrame (\<lambda>x y. Finite 1) (Finite 16) None queued
        in animationFrames queued = [FlushPendingPreviewSelectionUpdates]
           \<and> updatePreviewSelectionCalls flushed = [Selection False (Finite (65/2)) (Finite (115/2))]
           \<and> pendingPreviewSelectionUpdates flushed = []
           \<and> animationFrames flushed = [])
   \<and> (let reached = foldl (\<lambda>t event. handle (\<lambda>x y. Finite 1) event t) (constructor sampleProps)
                       [Resize (Some sampleRect), MoveViewport (Finite 100) (Finite 0),
                        ZoomRangeSelection (Finite (1/2)) (Finite (1/2))];
            after = animationFrame (\<lambda>x y. Finite 1) (Finite 16) None reached
        in length (updatePreviewSelectionCalls after) =
             length (updatePreviewSelectionCalls reached)
             + (if pendingPreviewSelectionUpdates reached = [] then 0 else 1))"
  using flush_folds_in_order [where this = sampleChart and pow = "\<lambda>x y. Finite 1"
      and timestamp = "Finite 16" and container = None
      and callbacks = "[moveUpdate (timeRange (viewportProps sampleProps)) (Finite 1000) (Finite 100),
                        zoomUpdate (Finite (1/100)) (Finite (1/2)) (Finite (1/2))]"
      and initialProps = sampleProps
      and events = "[Resize (Some sampleRect), MoveViewport (Finite 100) (Finite 0),
                     ZoomRangeSelection (Finite (1/2)) (Finite (1/2))]"]
  by (simp add: sampleChart_facts Let_def getHorizontalViewport_def moveUpdate_def
        pannedViewport_def zoomUpdate_def zoomedViewport_def newViewportLength_def)

section \<open>Keyboard navigation\<close>

lemma addBatched_keyboard [simp]:
  "count_list (animationFrames (addBatchedPreviewSelectionUpdate callback this)) KeyboardNavigation
     = count_list (animationFrames this) KeyboardNavigation"
  "keysDown (addBatchedPreviewSelectionUpdate callback this) = keysDown this"
  by (simp_all add: addBatchedPreviewSelectionUpdate_def requestAnimationFrame_def Let_def)

lemma moveViewport_keyboard [simp]:
  "count_list (animationFrames (moveViewport offsetX offsetY this)) KeyboardNavigation
     = count_list (animationFrames this) KeyboardNavigation"
  "keysDown (moveViewport offsetX offsetY this) = keysDown this"
  by (simp_all add: moveViewport_def Let_def split: prod.splits)

lemma zoomRangeSelection_keyboard [simp]:
  "count_list (animationFrames (zoomRangeSelection center zoomFactor this)) KeyboardNavigation
     = count_list (animationFrames this) KeyboardNavigation"
  "keysDown (zoomRangeSelection center zoomFactor this) = keysDown this"
  by (simp_all add: zoomRangeSelection_def)

lemma navigate_keyboard [simp]:
  "count_list (animationFrames (navigate pow delta key this)) KeyboardNavigation
     = count_list (animationFrames this) KeyboardNavigation"
  "keysDown (navigate pow delta key this) = keysDown this"
  by (cases key; simp)+

lemma navigate_all_keyboard [simp]:
  "count_list (animationFrames (foldl (\<lambda>t key. navigate pow delta key t) this keys)) KeyboardNavigation
     = count_list (animationFrames this) KeyboardNavigation"
  "keysDown (foldl (\<lambda>t key. navigate pow delta key t) this keys) = keysDown this"
  by (induction keys arbitrary: this) simp_all

lemma keyboardDelta_Finite:
  "keyboardDelta (Finite ts) (Finite prev) = Finite (min (2000 * ((ts - prev) / 1000)) 500)"
  by (simp add: keyboardDelta_def KEYBOARD_NAVIGATION_SPEED_def MAX_KEYBOARD_DELTA_def)

lemma runCallback_idle:
  assumes "keysDown this = []"
  shows "keysDown (runCallback pow timestamp container callback this) = []"
    and "animationFrames (runCallback pow timestamp container callback this) = animationFrames this"
  using assms
  by (cases callback;
      simp add: flushPendingPreviewSelectionUpdates_def keyboardNavigation_def setSize_def Let_def
        split: option.splits)+

lemma runCallbacks_idle:
  assumes "keysDown this = []"
  shows "animationFrames (foldl (\<lambda>t callback. runCallback pow timestamp container callback t) this callbacks)
         = animationFrames this"
  using assms
  by (induction callbacks arbitrary: this) (simp_all add: runCallback_idle)

lemma sampleNavigating_facts:
  "keysDown sampleNavigating = [Down]"
  "animationFrames sampleNavigating = [KeyboardNavigation]"
  "lastKeyboardNavigationFrame sampleNavigating = Finite 0"
  "props sampleNavigating = sampleProps"
  "state sampleNavigating = state sampleChart"
  "pendingPreviewSelectionUpdates sampleNavigating = []"
  by (simp_all add: sampleNavigating_def sampleKeyS_def keyDownListener_def BARE_KEYMAP_def
        setAdd_def requestAnimationFrame_def sampleChart_facts Let_def)

text \<open>
  C8. In a keyboard navigation frame with a key down, the delta handed to the action of
  every key that is down is the minimum of 2000 pixels per second times the seconds
  since the previous frame and 500 pixels: it never exceeds 500 pixels.
\<close>

theorem keyboard_delta_capped:
  assumes "keysDown this \<noteq> []" and "lastKeyboardNavigationFrame this = Finite prev"
  shows "\<exists>delta.
     keyboardDelta (Finite ts) (Finite prev) = Finite delta
     \<and> delta = min (2000 * ((ts - prev) / 1000)) 500
     \<and> delta \<le> 500
     \<and> keyboardNavigation pow (Finite ts) this =
         requestAnimationFrame KeyboardNavigation
           (foldl (\<lambda>t key. navigate pow (Finite delta) key t)
              (this\<lparr> lastKeyboardNavigationFrame := Finite ts \<rparr>) (keysDown this))"
  using assms by (simp add: keyboardDelta_Finite keyboardNavigation_def Let_def)


theorem keyboard_delta_capped_witness:
  "keysDown sampleNavigating \<noteq> []
   \<and> lastKeyboardNavigationFrame sampleNavigating = Finite 0
   \<and> (\<exists>delta.
     keyboardDelta (Finite 1000) (Finite 0) = Finite delta
     \<and> delta = min (2000 * ((1000 - 0) / 1000)) 500
     \<and> delta \<le> 500
     \<and> keyboardNavigation (\<lambda>x y. Finite 1) (Finite 1000) sampleNavigating =
         requestAnimationFrame KeyboardNavigation
           (foldl (\<lambda>t key. navigate (\<lambda>x y. Finite 1) (Finite delta) key t)
              (sampleNavigating\<lparr> lastKeyboardNavigationFrame := Finite 1000 \<rparr>)
              (keysDown sampleNavigating)))"
  using keyboard_delta_capped [where this = sampleNavigating and prev = 0 and ts = 1000
      and pow = "\<lambda>x y. Finite 1"]
  by (simp add: sampleNavigating_facts)

text \<open>
  C9. A keyboard navigation frame that finds no key down changes nothing and requests no
  frame, so that an animation frame of a component without a key down leaves no frame
  requested; a frame that finds a key down requests exactly one more keyboard navigation
  frame and leaves the keys as they are. A key-down requests a keyboard navigation frame
  exactly when it puts the first key into the empty set.
\<close>

theorem keyboard_loop_self_terminates:
  "(keysDown this = [] \<longrightarrow>
        keyboardNavigation pow timestamp this = this
        \<and> animationFrames (animationFrame pow timestamp container this) = [])
   \<and> (keysDown this \<noteq> [] \<longrightarrow>
        count_list (animationFrames (keyboardNavigation pow timestamp this)) KeyboardNavigation
          = count_list (animationFrames this) KeyboardNavigation + 1
        \<and> keysDown (keyboardNavigation pow timestamp this) = keysDown this)
   \<and> count_list (animationFrames (keyDownListener event now this)) KeyboardNavigation
       = count_list (animationFrames this) KeyboardNavigation
         + (if keysDown this = [] \<and> keysDown (keyDownListener event now this) \<noteq> [] then 1 else 0)"
proof -
  have idle: "animationFrames (animationFrame pow timestamp container this) = []"
    if "keysDown this = []"
    unfolding animationFrame_def using that by (simp add: runCallbacks_idle)
  have down: "count_list (animationFrames (keyDownListener event now this)) KeyboardNavigation
       = count_list (animationFrames this) KeyboardNavigation
         + (if keysDown this = [] \<and> keysDown (keyDownListener event now this) \<noteq> [] then 1 else 0)"
    by (simp add: keyDownListener_def Let_def requestAnimationFrame_def setAdd_def
          split: option.splits)
  show ?thesis
    using idle down by (simp add: keyboardNavigation_def Let_def requestAnimationFrame_def)
qed

theorem keyboard_loop_self_terminates_witness:
  "keysDown sampleChart = []
   \<and> keyboardNavigation (\<lambda>x y. Finite 1) (Finite 16) sampleChart = sampleChart
   \<and> animationFrames (animationFrame (\<lambda>x y. Finite 1) (Finite 16) None sampleChart) = []
   \<and> keysDown sampleNavigating \<noteq> []
   \<and> count_list (animationFrames (keyboardNavigation (\<lambda>x y. Finite 1) (Finite 16) sampleNavigating))
        KeyboardNavigation = 2
   \<and> keysDown (keyboardNavigation (\<lambda>x y. Finite 1) (Finite 16) sampleNavigating) = [Down]
   \<and> count_list (animationFrames (keyDownListener sampleKeyS (Finite 0) sampleChart)) KeyboardNavigation = 1"
  using
    keyboard_loop_self_terminates [where this = sampleChart and pow = "\<lambda>x y. Finite 1"
      and timestamp = "Finite 16" and container = None and event = sampleKeyS and now = "Finite 0"]
    keyboard_loop_self_terminates [where this = sampleNavigating and pow = "\<lambda>x y. Finite 1"
      and timestamp = "Finite 16" and container = None and event = sampleKeyS and now = "Finite 0"]
  by (simp add: sampleChart_facts sampleNavigating_facts sampleNavigating_def [symmetric])

section \<open>Selections and viewports\<close>

text \<open>
  C10. Converting a viewport \<open>(left, right)\<close> into a selection of a time range with
  \<open>end > start\<close>, as the pan and zoom transforms do, and converting that selection back with
  \<open>getHorizontalViewport\<close> returns \<open>(left, right)\<close>.
\<close>

theorem getHorizontalViewport_roundtrip:
  assumes "s < e"
  shows "getHorizontalViewport
           (Selection m (Finite s + (Finite e - Finite s) * Finite l)
                           (Finite s + (Finite e - Finite s) * Finite r))
           \<lparr> start = Finite s, end' = Finite e \<rparr>
         = \<lparr> viewportLeft = Finite l, viewportRight = Finite r \<rparr>"
  using assms by (simp add: getHorizontalViewport_def)

theorem getHorizontalViewport_roundtrip_witness:
  "(0::rat) < 10 \<and>
   getHorizontalViewport
     (Selection True (Finite 0 + (Finite 10 - Finite 0) * Finite (1/4))
                     (Finite 0 + (Finite 10 - Finite 0) * Finite (3/4)))
     \<lparr> start = Finite 0, end' = Finite 10 \<rparr>
   = \<lparr> viewportLeft = Finite (1/4), viewportRight = Finite (3/4) \<rparr>"
  using getHorizontalViewport_roundtrip [where s = 0 and e = 10 and l = "1/4" and r = "3/4" and m = True]
  by simp

section \<open>The viewport invariant\<close>

lemma validViewport_iff:
  "validViewport hv =
     (\<exists>l r. hv = \<lparr> viewportLeft = Finite l, viewportRight = Finite r \<rparr> \<and> 0 \<le> l \<and> l < r \<and> r \<le> 1)"
proof -
  obtain x y where hv: "hv = \<lparr> viewportLeft = x, viewportRight = y \<rparr>"
    by (cases hv) simp
  show ?thesis
    unfolding hv
    by (cases x; cases y) (auto simp: validViewport_def less_eq_number_def)
qed

lemma validViewport_Finite [simp]:
  "validViewport \<lparr> viewportLeft = Finite l, viewportRight = Finite r \<rparr> = (0 \<le> l \<and> l < r \<and> r \<le> 1)"
  by (simp add: validViewport_def)

lemma getHorizontalViewport_Selection:
  assumes "s \<noteq> e"
  shows "getHorizontalViewport
           (Selection m (Finite (s + (e - s) * l)) (Finite (s + (e - s) * r)))
           \<lparr> start = Finite s, end' = Finite e \<rparr>
         = \<lparr> viewportLeft = Finite l, viewportRight = Finite r \<rparr>"
  using assms by (simp add: getHorizontalViewport_def)

lemma getHorizontalViewport_within:
  assumes "s \<le> a" "a < b" "b \<le> e"
  shows "validViewport (getHorizontalViewport (Selection m (Finite a) (Finite b))
           \<lparr> start = Finite s, end' = Finite e \<rparr>)"
proof -
  have T: "0 < e - s" using assms by simp
  then have "0 \<le> (a - s) / (e - s)" "(a - s) / (e - s) < (b - s) / (e - s)" "(b - s) / (e - s) \<le> 1"
    using assms by (simp_all add: divide_strict_right_mono)
  then show ?thesis using T by (simp add: getHorizontalViewport_def)
qed

lemma moveUpdate_valid:
  assumes hv: "validViewport hv" and T: "s \<noteq> e" and w: "w \<noteq> 0"
  shows "validViewport
           (getHorizontalViewport
              (moveUpdate \<lparr> start = Finite s, end' = Finite e \<rparr> (Finite w) (Finite offsetX) p hv)
              \<lparr> start = Finite s, end' = Finite e \<rparr>)"
proof -
  from hv obtain l r where
    lr: "hv = \<lparr> viewportLeft = Finite l, viewportRight = Finite r \<rparr>" "0 \<le> l" "l < r" "r \<le> 1"
    by (auto simp: validViewport_iff)
  show ?thesis
  proof (cases "1 \<le> r - l")
    case True
    then show ?thesis
      by (simp add: lr moveUpdate_def getHorizontalViewport_def)
  next
    case False
    let ?u = "(r - l) * offsetX / w"
    consider (lo) "l - ?u < 0" | (hi) "\<not> l - ?u < 0" "1 < r - ?u" | (mid) "\<not> l - ?u < 0" "\<not> 1 < r - ?u"
      by blast
    then show ?thesis
    proof cases
      case lo
      with False lr w T show ?thesis
        by (simp add: moveUpdate_def pannedViewport_Finite Let_def getHorizontalViewport_def)
    next
      case hi
      with False lr w T show ?thesis
        by (simp add: moveUpdate_def pannedViewport_Finite Let_def getHorizontalViewport_def)
    next
      case mid
      with False lr w T show ?thesis
        by (simp add: moveUpdate_def pannedViewport_Finite Let_def getHorizontalViewport_def)
    qed
  qed
qed

lemma isFinite_iff: "isFinite x = (\<exists>r. x = Finite r)"
  by (cases x) simp_all

lemma addBatched_last [simp]:
  "lastKeyboardNavigationFrame (addBatchedPreviewSelectionUpdate callback this)
     = lastKeyboardNavigationFrame this"
  by (simp add: addBatchedPreviewSelectionUpdate_def requestAnimationFrame_def Let_def)

lemma addBatched_vertical [simp]:
  "verticalInvariant (addBatchedPreviewSelectionUpdate callback this) = verticalInvariant this"
  by (simp add: verticalInvariant_def)

lemma moveViewport_unsized:
  "\<not> isSizeSet (state this) \<Longrightarrow> moveViewport offsetX offsetY this = this"
  by (simp add: moveViewport_def Let_def)

lemma moveViewport_fields [simp]:
  "props (moveViewport offsetX offsetY this) = props this"
  "lastKeyboardNavigationFrame (moveViewport offsetX offsetY this) = lastKeyboardNavigationFrame this"
  by (simp_all add: moveViewport_def Let_def split: prod.splits)

lemma moveViewport_verticalInvariant:
  assumes inv: "verticalInvariant this" and fin: "isFinite offsetY"
  shows "verticalInvariant (moveViewport offsetX offsetY this)"
proof (cases "isSizeSet (state this)")
  case False
  then show ?thesis using inv by (simp add: moveViewport_unsized)
next
  case True
  from inv obtain t b h m where
    f: "viewportTop (state this) = Finite t" "viewportBottom (state this) = Finite b"
       "containerHeight (state this) = Finite h"
       "maxViewportHeight (viewportProps (props this)) = Finite m"
    by (auto simp: verticalInvariant_def isFinite_iff)
  from fin obtain y where y: "offsetY = Finite y" by (auto simp: isFinite_iff)
  have d: "b - t = h" using inv True f by (simp add: verticalInvariant_def)
  show ?thesis
    using inv True f
    unfolding verticalInvariant_def y moveViewport_fields moveViewport_vertical [OF True f d]
    by (simp add: Let_def)
qed


lemma uminus_isFinite [simp]: "isFinite (- x) = isFinite x"
  by (cases x) simp_all

lemma minus_isFinite: "isFinite x \<Longrightarrow> isFinite y \<Longrightarrow> isFinite (x - y)"
  by (auto simp: isFinite_iff)

lemma keyboardDelta_isFinite:
  "isFinite timestamp \<Longrightarrow> isFinite lastFrame \<Longrightarrow> isFinite (keyboardDelta timestamp lastFrame)"
  by (auto simp: isFinite_iff keyboardDelta_def KEYBOARD_NAVIGATION_SPEED_def MAX_KEYBOARD_DELTA_def)

lemma setSize_verticalInvariant:
  assumes "verticalInvariant this" and "finiteRect container"
  shows "verticalInvariant (setSize container this)"
  using assms
  by (cases container)
     (auto simp: verticalInvariant_def setSize_def isFinite_iff Let_def)

lemma receiveProps_verticalInvariant:
  assumes "verticalInvariant this" and "isFinite (maxViewportHeight (viewportProps newProps))"
  shows "verticalInvariant (UNSAFE_componentWillReceiveProps needsUpdate replaced newProps this)"
  using assms
  by (auto simp: verticalInvariant_def UNSAFE_componentWillReceiveProps_def setSizeNextFrame_def
        requestAnimationFrame_def getDefaultState_def isFinite_iff Let_def)

lemma zoomRangeSelection_verticalInvariant [simp]:
  "verticalInvariant (zoomRangeSelection center zoomFactor this) = verticalInvariant this"
  by (simp add: zoomRangeSelection_def)

lemma mouseMove_verticalInvariant:
  assumes "verticalInvariant this" and "isFinite clientY"
  shows "verticalInvariant (mouseMoveListener clientX clientY this)"
proof -
  let ?this1 = "this\<lparr> state := (state this)
                    \<lparr> dragX := clientX, dragY := clientY, isDragging := True \<rparr> \<rparr>"
  have 1: "verticalInvariant ?this1"
    using assms by (simp add: verticalInvariant_def)
  have 2: "isFinite (clientY - (if \<not> isDragging (state this) then clientY else dragY (state this)))"
    using assms by (auto simp: verticalInvariant_def intro: minus_isFinite)
  show ?thesis
  proof (cases "isDragging (state this)")
    case True
    with moveViewport_verticalInvariant [OF 1 2, of "clientX - dragX (state this)"]
    show ?thesis by (simp add: mouseMoveListener_def Let_def)
  next
    case False
    with moveViewport_verticalInvariant [OF 1 2, of "clientX - clientX"]
    show ?thesis by (simp add: mouseMoveListener_def Let_def)
  qed
qed

lemma mouseUp_verticalInvariant [simp]:
  "verticalInvariant (mouseUpListener this) = verticalInvariant this"
  by (simp add: verticalInvariant_def mouseUpListener_def)

lemma keyDown_verticalInvariant:
  assumes "verticalInvariant this" and "isFinite now"
  shows "verticalInvariant (keyDownListener event now this)"
  using assms
  by (simp add: verticalInvariant_def keyDownListener_def requestAnimationFrame_def Let_def
        split: option.splits)

lemma keyUp_verticalInvariant [simp]:
  "verticalInvariant (keyUpListener event this) = verticalInvariant this"
  by (simp add: verticalInvariant_def keyUpListener_def Let_def)

lemma navigate_verticalInvariant:
  assumes "verticalInvariant this" and "isFinite delta"
  shows "verticalInvariant (navigate pow delta key this)"
  using assms
  by (cases key) (simp_all add: moveViewport_verticalInvariant)

lemma navigate_all_verticalInvariant:
  assumes "verticalInvariant this" and "isFinite delta"
  shows "verticalInvariant (foldl (\<lambda>t key. navigate pow delta key t) this keys)"
  using assms
  by (induction keys arbitrary: this) (simp_all add: navigate_verticalInvariant)

lemma keyboardNavigation_verticalInvariant:
  assumes "verticalInvariant this" and "isFinite timestamp"
  shows "verticalInvariant (keyboardNavigation pow timestamp this)"
proof (cases "keysDown this = []")
  case True
  then show ?thesis using assms by (simp add: keyboardNavigation_def)
next
  case False
  let ?delta = "keyboardDelta timestamp (lastKeyboardNavigationFrame this)"
  let ?this1 = "this\<lparr> lastKeyboardNavigationFrame := timestamp \<rparr>"
  have d: "isFinite ?delta"
    using assms by (simp add: keyboardDelta_isFinite verticalInvariant_def)
  have 1: "verticalInvariant ?this1"
    using assms by (simp add: verticalInvariant_def)
  have "verticalInvariant (foldl (\<lambda>t key. navigate pow ?delta key t) ?this1 (keysDown ?this1))"
    by (rule navigate_all_verticalInvariant [OF 1 d])
  then show ?thesis
    using False
    by (simp add: keyboardNavigation_def Let_def requestAnimationFrame_def verticalInvariant_def)
qed

lemma times_isFinite: "isFinite x \<Longrightarrow> isFinite y \<Longrightarrow> isFinite (x * y)"
  by (auto simp: isFinite_iff)

lemma getNormalizedScrollDelta_isFinite:
  assumes "isFinite (deltaX event)" "isFinite (deltaY event)" "isFinite pageHeight"
  shows "isFinite (getNormalizedScrollDelta event pageHeight key)"
  using assms
  by (simp add: getNormalizedScrollDelta_def Let_def SCROLL_LINE_SIZE_def times_isFinite)

lemma showScrollingHint_verticalInvariant [simp]:
  "verticalInvariant (showScrollingHint this) = verticalInvariant this"
  by (simp add: verticalInvariant_def showScrollingHint_def Let_def)

lemma showScrollingHint_containerHeight [simp]:
  "containerHeight (state (showScrollingHint this)) = containerHeight (state this)"
  by (simp add: showScrollingHint_def Let_def)

lemma scrollHintTimeout_verticalInvariant [simp]:
  "verticalInvariant (scrollHintTimeout this) = verticalInvariant this"
  by (simp add: verticalInvariant_def scrollHintTimeout_def Let_def split: list.splits)

lemma zoomWithMouseWheel_verticalInvariant [simp]:
  "verticalInvariant (zoomWithMouseWheel pow event zoomModifier this) = verticalInvariant this"
  by (simp add: zoomWithMouseWheel_def Let_def verticalInvariant_def zoomRangeSelection_def)

lemma mouseWheel_verticalInvariant:
  assumes inv: "verticalInvariant this"
    and fin: "isFinite (deltaX event)" "isFinite (deltaY event)"
  shows "verticalInvariant (mouseWheelListener pow event this)"
proof (cases "wheelCtrlKey event \<or> wheelShiftKey event")
  case True
  then show ?thesis using inv by (simp add: mouseWheelListener_def)
next
  case False
  let ?this1 = "if \<not> disableHorizontalMovement (viewportProps (props this))
                then showScrollingHint this else this"
  have h: "isFinite (containerHeight (state ?this1))"
    using inv by (simp add: verticalInvariant_def)
  have 1: "verticalInvariant ?this1" using inv by simp
  have 2: "isFinite (- getNormalizedScrollDelta event (containerHeight (state ?this1)) DeltaY)"
    using getNormalizedScrollDelta_isFinite [OF fin h] by simp
  from moveViewport_verticalInvariant [OF 1 2] False show ?thesis
    by (simp add: mouseWheelListener_def Let_def)
qed

lemma flush_verticalInvariant [simp]:
  "verticalInvariant (flushPendingPreviewSelectionUpdates this) = verticalInvariant this"
  by (simp add: verticalInvariant_def flushPendingPreviewSelectionUpdates_def Let_def)

lemma runCallback_verticalInvariant:
  assumes "verticalInvariant this" and "isFinite timestamp" and "finiteRect container"
  shows "verticalInvariant (runCallback pow timestamp container callback this)"
  using assms
  by (cases callback)
     (simp_all add: keyboardNavigation_verticalInvariant setSize_verticalInvariant)

lemma runCallbacks_verticalInvariant:
  assumes "verticalInvariant this" and "isFinite timestamp" and "finiteRect container"
  shows "verticalInvariant
           (foldl (\<lambda>t callback. runCallback pow timestamp container callback t) this callbacks)"
  using assms
  by (induction callbacks arbitrary: this) (simp_all add: runCallback_verticalInvariant)

lemma animationFrame_verticalInvariant:
  assumes "verticalInvariant this" and "isFinite timestamp" and "finiteRect container"
  shows "verticalInvariant (animationFrame pow timestamp container this)"
proof -
  have "verticalInvariant (this\<lparr> animationFrames := [] \<rparr>)"
    using assms(1) by (simp add: verticalInvariant_def)
  then show ?thesis
    unfolding animationFrame_def
    by (rule runCallbacks_verticalInvariant) (rule assms)+
qed

lemma handle_verticalInvariant:
  assumes "verticalInvariant this" and "finiteEvent event"
  shows "verticalInvariant (handle pow event this)"
  using assms
  by (cases event)
     (simp_all add: setSize_verticalInvariant receiveProps_verticalInvariant
        moveViewport_verticalInvariant mouseMove_verticalInvariant keyDown_verticalInvariant
        mouseWheel_verticalInvariant animationFrame_verticalInvariant)

lemma run_verticalInvariant:
  assumes "verticalInvariant this" and "list_all finiteEvent events"
  shows "verticalInvariant (foldl (\<lambda>t event. handle pow event t) this events)"
  using assms
  by (induction events arbitrary: this) (simp_all add: handle_verticalInvariant)

lemma constructor_verticalInvariant:
  assumes "isFinite (maxViewportHeight (viewportProps p))"
  shows "verticalInvariant (constructor p)"
  using assms
  by (auto simp: verticalInvariant_def constructor_def getDefaultState_def isFinite_iff)


lemma zoomed_valid:
  fixes L :: rat
  assumes "0 < L" "L \<le> 1" "y = x + L"
  shows "0 \<le> max 0 (min (1 - L) x)"
    and "max 0 (min (1 - L) x) < max L (min 1 y)"
    and "max L (min 1 y) \<le> 1"
  using assms by (simp_all add: max_def min_def)

lemma zoomUpdate_valid:
  assumes hv: "validViewport hv" and T: "s \<noteq> e" and mz: "mz \<le> 1" "0 < mz \<or> 0 < zf"
    and trange: "timeRange (viewportProps p) = \<lparr> start = Finite s, end' = Finite e \<rparr>"
  shows "validViewport
           (getHorizontalViewport (zoomUpdate (Finite mz) (Finite c) (Finite zf) p hv)
              \<lparr> start = Finite s, end' = Finite e \<rparr>)"
proof -
  from hv obtain l r where
    lr: "hv = \<lparr> viewportLeft = Finite l, viewportRight = Finite r \<rparr>" and len: "0 < r - l"
    by (auto simp: validViewport_iff)
  let ?L = "max mz (min 1 ((r - l) * zf))"
  let ?d = "?L - (r - l)"
  let ?l' = "max 0 (min (1 - ?L) (l - ?d * c))"
  let ?r' = "max ?L (min 1 (r + ?d * (1 - c)))"
  have zv: "zoomedViewport (Finite mz) (Finite c) (Finite zf) hv
            = \<lparr> viewportLeft = Finite ?l', viewportRight = Finite ?r' \<rparr>"
    by (simp add: lr zoomedViewport_Finite Let_def)
  have "0 < mz \<or> 0 < (r - l) * zf" using mz(2) len by auto
  then have L: "0 < ?L" "?L \<le> 1" using mz(1) by auto
  have y: "r + ?d * (1 - c) = l - ?d * c + ?L" by (simp add: algebra_simps)
  have valid: "validViewport \<lparr> viewportLeft = Finite ?l', viewportRight = Finite ?r' \<rparr>"
    using zoomed_valid [OF L y] by (simp only: validViewport_Finite simp_thms)
  show ?thesis
  proof (cases "?l' = 0 \<and> ?r' = 1")
    case True
    have "zoomUpdate (Finite mz) (Finite c) (Finite zf) p hv = NoSelection"
      unfolding zoomUpdate_Finite [OF trange zv] by (rule if_P) (rule True)
    then show ?thesis by (simp add: getHorizontalViewport_def)
  next
    case False
    have "zoomUpdate (Finite mz) (Finite c) (Finite zf) p hv
               = Selection False (Finite (s + (e - s) * ?l')) (Finite (s + (e - s) * ?r'))"
      unfolding zoomUpdate_Finite [OF trange zv] by (rule if_not_P) (rule False)
    then show ?thesis
      using valid by (simp only: getHorizontalViewport_Selection [OF T])
  qed
qed

lemma moveViewport_frames:
  assumes "isSizeSet (state this)" "\<not> disableHorizontalMovement (viewportProps (props this))"
    "pendingPreviewSelectionUpdates this = []"
  shows "animationFrames (moveViewport offsetX offsetY this)
         = animationFrames this @ [FlushPendingPreviewSelectionUpdates]"
  using assms
  by (simp add: moveViewport_def Let_def split: prod.splits)

lemma zoomRangeSelection_frames:
  assumes "\<not> disableHorizontalMovement (viewportProps (props this))"
    "pendingPreviewSelectionUpdates this = []"
  shows "animationFrames (zoomRangeSelection center zoomFactor this)
         = animationFrames this @ [FlushPendingPreviewSelectionUpdates]"
    and "props (zoomRangeSelection center zoomFactor this) = props this"
  using assms
  by (simp_all add: zoomRangeSelection_def)

lemma single_flush:
  assumes "pendingPreviewSelectionUpdates this = [update]"
    and "animationFrames this = [FlushPendingPreviewSelectionUpdates]"
  shows "updatePreviewSelectionCalls (animationFrame pow timestamp container this)
         = updatePreviewSelectionCalls this @
           [update (props this)
              (getHorizontalViewport (previewSelection (viewportProps (props this)))
                 (timeRange (viewportProps (props this))))]"
  using assms
  by (simp add: animationFrame_def flushPendingPreviewSelectionUpdates_def Let_def)

lemma pan_flush_valid:
  assumes sized: "isSizeSet (state this)"
    and horizontal: "\<not> disableHorizontalMovement (viewportProps (props this))"
    and idle: "pendingPreviewSelectionUpdates this = []" "animationFrames this = []"
    and width: "containerWidth (state this) = Finite w" "w \<noteq> 0"
    and trange: "timeRange (viewportProps (props this)) = \<lparr> start = Finite s, end' = Finite e \<rparr>"
      "s \<noteq> e"
    and valid: "validViewport
        (getHorizontalViewport (previewSelection (viewportProps (props this)))
           (timeRange (viewportProps (props this))))"
  shows "\<exists>selection.
     updatePreviewSelectionCalls
       (animationFrame pow timestamp container (moveViewport (Finite offsetX) offsetY this))
       = updatePreviewSelectionCalls this @ [selection]
     \<and> validViewport (getHorizontalViewport selection (timeRange (viewportProps (props this))))"
proof -
  let ?moved = "moveViewport (Finite offsetX) offsetY this"
  let ?update = "moveUpdate \<lparr> start = Finite s, end' = Finite e \<rparr> (Finite w) (Finite offsetX)"
  have p: "pendingPreviewSelectionUpdates ?moved = [?update]"
    using moveViewport_queues [OF sized horizontal] idle width trange by simp
  have f: "animationFrames ?moved = [FlushPendingPreviewSelectionUpdates]"
    using moveViewport_frames [OF sized horizontal idle(1)] idle by simp
  have c: "updatePreviewSelectionCalls (animationFrame pow timestamp container ?moved)
         = updatePreviewSelectionCalls this @
           [?update (props this)
              (getHorizontalViewport (previewSelection (viewportProps (props this)))
                 \<lparr> start = Finite s, end' = Finite e \<rparr>)]"
    using single_flush [OF p f] trange by simp
  have v: "validViewport
       (getHorizontalViewport
          (?update (props this)
             (getHorizontalViewport (previewSelection (viewportProps (props this)))
                \<lparr> start = Finite s, end' = Finite e \<rparr>))
          \<lparr> start = Finite s, end' = Finite e \<rparr>)"
    using valid trange by (intro moveUpdate_valid width) simp_all
  from c v trange show ?thesis by simp
qed

lemma zoom_flush_valid:
  assumes horizontal: "\<not> disableHorizontalMovement (viewportProps (props this))"
    and idle: "pendingPreviewSelectionUpdates this = []" "animationFrames this = []"
    and maxZoom: "maximumZoom (viewportProps (props this)) = Finite mz" "mz \<le> 1" "0 < mz \<or> 0 < zf"
    and trange: "timeRange (viewportProps (props this)) = \<lparr> start = Finite s, end' = Finite e \<rparr>"
      "s \<noteq> e"
    and valid: "validViewport
        (getHorizontalViewport (previewSelection (viewportProps (props this)))
           (timeRange (viewportProps (props this))))"
  shows "\<exists>selection.
     updatePreviewSelectionCalls
       (animationFrame pow timestamp container (zoomRangeSelection (Finite c) (Finite zf) this))
       = updatePreviewSelectionCalls this @ [selection]
     \<and> validViewport (getHorizontalViewport selection (timeRange (viewportProps (props this))))"
proof -
  let ?zoomed = "zoomRangeSelection (Finite c) (Finite zf) this"
  let ?update = "zoomUpdate (Finite mz) (Finite c) (Finite zf)"
  have p: "pendingPreviewSelectionUpdates ?zoomed = [?update]"
    using zoomRangeSelection_queues [OF horizontal] idle maxZoom by simp
  have f: "animationFrames ?zoomed = [FlushPendingPreviewSelectionUpdates]"
    using zoomRangeSelection_frames(1) [OF horizontal idle(1)] idle by simp
  have q: "props ?zoomed = props this"
    by (rule zoomRangeSelection_frames(2) [OF horizontal idle(1)])
  have c: "updatePreviewSelectionCalls (animationFrame pow timestamp container ?zoomed)
         = updatePreviewSelectionCalls this @
           [?update (props this)
              (getHorizontalViewport (previewSelection (viewportProps (props this)))
                 \<lparr> start = Finite s, end' = Finite e \<rparr>)]"
    using single_flush [OF p f] trange by (simp add: q)
  have v: "validViewport
       (getHorizontalViewport
          (?update (props this)
             (getHorizontalViewport (previewSelection (viewportProps (props this)))
                \<lparr> start = Finite s, end' = Finite e \<rparr>))
          \<lparr> start = Finite s, end' = Finite e \<rparr>)"
    using valid trange maxZoom by (intro zoomUpdate_valid) simp_all
  from c v trange show ?thesis by simp
qed


text \<open>
  C4 (as amended). Over exact rational arithmetic: the horizontal viewport satisfies
  \<open>0 \<le> left < right \<le> 1\<close> when it is computed from no selection, or from a selection with
  \<open>start \<le> selectionStart < selectionEnd \<le> end\<close> in the time range. A pan update with a
  finite offset keeps a valid viewport valid when the container width is not 0, the time
  range is not empty, and the selection it returns is read back in the time range the pan
  captured (the time range has not changed between the pan and the flush). A zoom update
  with a finite centre and zoom factor keeps a valid viewport valid when
  \<open>maximumZoom \<le> 1\<close>, \<open>maximumZoom\<close> or the zoom factor is positive, and the time range is
  not empty. Under the same conditions the selection that the next animation frame hands
  to \<open>updatePreviewSelection\<close>, after a pan or a zoom of a component with nothing pending
  whose preview selection has a valid viewport, has a valid viewport in the time range of
  the component. In every state reached from the constructor by events with finite
  values, \<open>viewportBottom - viewportTop\<close> is \<open>containerHeight\<close> once the size has been
  set.

  The equation \<open>viewportBottom - viewportTop = containerHeight\<close> is one of exact
  arithmetic: the source computes the bottom as \<open>top + containerHeight\<close>, rounded to a
  double, and the difference is the container height up to that rounding only (in a
  container 480.25 pixels high, the pan by -53.333333333333336 pixels from the top 0 gives
  the top 53.333333333333336 and the bottom 533.5833333333334, 480.25000000000006 apart).
  So is the horizontal viewport read back from a selection: its edges are those of the
  viewport the transform computed up to the rounding of \<open>start + length * edge\<close> and of
  the division by the length.
\<close>

theorem viewport_invariant:
  "validViewport (getHorizontalViewport NoSelection tRange)
   \<and> (s \<le> a \<and> a < b \<and> b \<le> e \<longrightarrow>
        validViewport (getHorizontalViewport (Selection m (Finite a) (Finite b))
          \<lparr> start = Finite s, end' = Finite e \<rparr>))
   \<and> (validViewport hv \<and> s \<noteq> e \<and> w \<noteq> 0 \<longrightarrow>
        validViewport
          (getHorizontalViewport
             (moveUpdate \<lparr> start = Finite s, end' = Finite e \<rparr> (Finite w) (Finite offsetX) p hv)
             \<lparr> start = Finite s, end' = Finite e \<rparr>))
   \<and> (validViewport hv \<and> s \<noteq> e \<and> mz \<le> 1 \<and> (0 < mz \<or> 0 < zf)
        \<and> timeRange (viewportProps p) = \<lparr> start = Finite s, end' = Finite e \<rparr> \<longrightarrow>
        validViewport
          (getHorizontalViewport (zoomUpdate (Finite mz) (Finite c) (Finite zf) p hv)
             \<lparr> start = Finite s, end' = Finite e \<rparr>))
   \<and> (pendingPreviewSelectionUpdates this = [] \<and> animationFrames this = []
        \<and> \<not> disableHorizontalMovement (viewportProps (props this))
        \<and> timeRange (viewportProps (props this)) = \<lparr> start = Finite s, end' = Finite e \<rparr>
        \<and> s \<noteq> e
        \<and> validViewport
             (getHorizontalViewport (previewSelection (viewportProps (props this)))
                (timeRange (viewportProps (props this)))) \<longrightarrow>
        (isSizeSet (state this) \<and> containerWidth (state this) = Finite w \<and> w \<noteq> 0 \<longrightarrow>
           (\<exists>selection.
              updatePreviewSelectionCalls
                (animationFrame pow timestamp container
                   (moveViewport (Finite offsetX) offsetY this))
                = updatePreviewSelectionCalls this @ [selection]
              \<and> validViewport
                  (getHorizontalViewport selection (timeRange (viewportProps (props this))))))
        \<and> (maximumZoom (viewportProps (props this)) = Finite mz \<and> mz \<le> 1
             \<and> (0 < mz \<or> 0 < zf) \<longrightarrow>
           (\<exists>selection.
              updatePreviewSelectionCalls
                (animationFrame pow timestamp container
                   (zoomRangeSelection (Finite c) (Finite zf) this))
                = updatePreviewSelectionCalls this @ [selection]
              \<and> validViewport
                  (getHorizontalViewport selection (timeRange (viewportProps (props this)))))))
   \<and> (isFinite (maxViewportHeight (viewportProps initialProps)) \<and> list_all finiteEvent events \<longrightarrow>
        verticalInvariant (foldl (\<lambda>t event. handle pow event t) (constructor initialProps) events))"
proof -
  have none: "validViewport (getHorizontalViewport NoSelection tRange)"
    by (simp add: getHorizontalViewport_def)
  have within: "s \<le> a \<and> a < b \<and> b \<le> e \<longrightarrow>
        validViewport (getHorizontalViewport (Selection m (Finite a) (Finite b))
          \<lparr> start = Finite s, end' = Finite e \<rparr>)"
    using getHorizontalViewport_within [where s = s and a = a and b = b and e = e and m = m]
    by blast
  have pan: "validViewport hv \<and> s \<noteq> e \<and> w \<noteq> 0 \<longrightarrow>
        validViewport
          (getHorizontalViewport
             (moveUpdate \<lparr> start = Finite s, end' = Finite e \<rparr> (Finite w) (Finite offsetX) p hv)
             \<lparr> start = Finite s, end' = Finite e \<rparr>)"
    using moveUpdate_valid [where hv = hv and s = s and e = e and w = w and offsetX = offsetX and p = p]
    by blast
  have zoom: "validViewport hv \<and> s \<noteq> e \<and> mz \<le> 1 \<and> (0 < mz \<or> 0 < zf)
        \<and> timeRange (viewportProps p) = \<lparr> start = Finite s, end' = Finite e \<rparr> \<longrightarrow>
        validViewport
          (getHorizontalViewport (zoomUpdate (Finite mz) (Finite c) (Finite zf) p hv)
             \<lparr> start = Finite s, end' = Finite e \<rparr>)"
    using zoomUpdate_valid [where hv = hv and s = s and e = e and mz = mz and p = p and c = c and zf = zf]
    by blast
  have flush: "pendingPreviewSelectionUpdates this = [] \<and> animationFrames this = []
        \<and> \<not> disableHorizontalMovement (viewportProps (props this))
        \<and> timeRange (viewportProps (props this)) = \<lparr> start = Finite s, end' = Finite e \<rparr>
        \<and> s \<noteq> e
        \<and> validViewport
             (getHorizontalViewport (previewSelection (viewportProps (props this)))
                (timeRange (viewportProps (props this)))) \<longrightarrow>
        (isSizeSet (state this) \<and> containerWidth (state this) = Finite w \<and> w \<noteq> 0 \<longrightarrow>
           (\<exists>selection.
              updatePreviewSelectionCalls
                (animationFrame pow timestamp container
                   (moveViewport (Finite offsetX) offsetY this))
                = updatePreviewSelectionCalls this @ [selection]
              \<and> validViewport
                  (getHorizontalViewport selection (timeRange (viewportProps (props this))))))
        \<and> (maximumZoom (viewportProps (props this)) = Finite mz \<and> mz \<le> 1
             \<and> (0 < mz \<or> 0 < zf) \<longrightarrow>
           (\<exists>selection.
              updatePreviewSelectionCalls
                (animationFrame pow timestamp container
                   (zoomRangeSelection (Finite c) (Finite zf) this))
                = updatePreviewSelectionCalls this @ [selection]
              \<and> validViewport
                  (getHorizontalViewport selection (timeRange (viewportProps (props this))))))"
  proof (intro impI conjI)
    assume idle: "pendingPreviewSelectionUpdates this = [] \<and> animationFrames this = []
        \<and> \<not> disableHorizontalMovement (viewportProps (props this))
        \<and> timeRange (viewportProps (props this)) = \<lparr> start = Finite s, end' = Finite e \<rparr>
        \<and> s \<noteq> e
        \<and> validViewport
             (getHorizontalViewport (previewSelection (viewportProps (props this)))
                (timeRange (viewportProps (props this))))"
    then have i: "pendingPreviewSelectionUpdates this = []" "animationFrames this = []"
        "\<not> disableHorizontalMovement (viewportProps (props this))"
        "timeRange (viewportProps (props this)) = \<lparr> start = Finite s, end' = Finite e \<rparr>"
        "s \<noteq> e"
        "validViewport
             (getHorizontalViewport (previewSelection (viewportProps (props this)))
                (timeRange (viewportProps (props this))))"
      by blast+
    {
      assume sized: "isSizeSet (state this) \<and> containerWidth (state this) = Finite w \<and> w \<noteq> 0"
      show "\<exists>selection.
              updatePreviewSelectionCalls
                (animationFrame pow timestamp container
                   (moveViewport (Finite offsetX) offsetY this))
                = updatePreviewSelectionCalls this @ [selection]
              \<and> validViewport
                  (getHorizontalViewport selection (timeRange (viewportProps (props this))))"
        using sized by (intro pan_flush_valid [OF _ i(3) i(1) i(2) _ _ i(4) i(5) i(6)]) blast+
    }
    {
      assume maxZoom: "maximumZoom (viewportProps (props this)) = Finite mz \<and> mz \<le> 1
             \<and> (0 < mz \<or> 0 < zf)"
      show "\<exists>selection.
              updatePreviewSelectionCalls
                (animationFrame pow timestamp container
                   (zoomRangeSelection (Finite c) (Finite zf) this))
                = updatePreviewSelectionCalls this @ [selection]
              \<and> validViewport
                  (getHorizontalViewport selection (timeRange (viewportProps (props this))))"
        using maxZoom by (intro zoom_flush_valid [OF i(3) i(1) i(2) _ _ _ i(4) i(5) i(6)]) blast+
    }
  qed
  have vertical: "isFinite (maxViewportHeight (viewportProps initialProps))
        \<and> list_all finiteEvent events \<longrightarrow>
        verticalInvariant (foldl (\<lambda>t event. handle pow event t) (constructor initialProps) events)"
    using run_verticalInvariant [OF constructor_verticalInvariant,
        where p1 = initialProps and events = events and pow = pow]
    by blast
  show ?thesis
    by (intro conjI) (rule none within pan zoom flush vertical)+
qed

theorem viewport_invariant_witness:
  "validViewport (getHorizontalViewport NoSelection \<lparr> start = Finite 0, end' = Finite 100 \<rparr>)
   \<and> (0::rat) \<le> 25 \<and> (25::rat) < 75 \<and> (75::rat) \<le> 100
   \<and> validViewport (getHorizontalViewport (Selection False (Finite 25) (Finite 75))
         \<lparr> start = Finite 0, end' = Finite 100 \<rparr>)
   \<and> validViewport \<lparr> viewportLeft = Finite (1/4), viewportRight = Finite (3/4) \<rparr>
   \<and> (0::rat) \<noteq> 100 \<and> (1000::rat) \<noteq> 0
   \<and> validViewport
         (getHorizontalViewport
            (moveUpdate \<lparr> start = Finite 0, end' = Finite 100 \<rparr> (Finite 1000) (Finite 100) sampleProps
               \<lparr> viewportLeft = Finite (1/4), viewportRight = Finite (3/4) \<rparr>)
            \<lparr> start = Finite 0, end' = Finite 100 \<rparr>)
   \<and> (1/100 :: rat) \<le> 1 \<and> (0::rat) < 1/100
   \<and> timeRange (viewportProps sampleProps) = \<lparr> start = Finite 0, end' = Finite 100 \<rparr>
   \<and> validViewport
         (getHorizontalViewport
            (zoomUpdate (Finite (1/100)) (Finite (1/2)) (Finite (1/2)) sampleProps
               \<lparr> viewportLeft = Finite (1/4), viewportRight = Finite (3/4) \<rparr>)
            \<lparr> start = Finite 0, end' = Finite 100 \<rparr>)
   \<and> pendingPreviewSelectionUpdates sampleChart = [] \<and> animationFrames sampleChart = []
   \<and> \<not> disableHorizontalMovement (viewportProps (props sampleChart))
   \<and> timeRange (viewportProps (props sampleChart)) = \<lparr> start = Finite 0, end' = Finite 100 \<rparr>
   \<and> validViewport
        (getHorizontalViewport (previewSelection (viewportProps (props sampleChart)))
           (timeRange (viewportProps (props sampleChart))))
   \<and> isSizeSet (state sampleChart) \<and> containerWidth (state sampleChart) = Finite 1000
   \<and> maximumZoom (viewportProps (props sampleChart)) = Finite (1/100)
   \<and> (\<exists>selection.
        updatePreviewSelectionCalls
          (animationFrame (\<lambda>x y. Finite 1) (Finite 16) (Some sampleRect)
             (moveViewport (Finite 100) (Finite 0) sampleChart))
          = updatePreviewSelectionCalls sampleChart @ [selection]
        \<and> validViewport
            (getHorizontalViewport selection (timeRange (viewportProps (props sampleChart)))))
   \<and> (\<exists>selection.
        updatePreviewSelectionCalls
          (animationFrame (\<lambda>x y. Finite 1) (Finite 16) (Some sampleRect)
             (zoomRangeSelection (Finite (1/2)) (Finite (1/2)) sampleChart))
          = updatePreviewSelectionCalls sampleChart @ [selection]
        \<and> validViewport
            (getHorizontalViewport selection (timeRange (viewportProps (props sampleChart)))))
   \<and> isFinite (maxViewportHeight (viewportProps sampleProps))
   \<and> list_all finiteEvent
         [Resize (Some sampleRect), MoveViewport (Finite 10) (Finite (- 50)),
          KeyDown sampleKeyS (Finite 0), AnimationFrame (Finite 16) (Some sampleRect)]
   \<and> verticalInvariant
         (foldl (\<lambda>t event. handle (\<lambda>x y. Finite 1) event t) (constructor sampleProps)
            [Resize (Some sampleRect), MoveViewport (Finite 10) (Finite (- 50)),
             KeyDown sampleKeyS (Finite 0), AnimationFrame (Finite 16) (Some sampleRect)])"
proof -
  have facts:
    "pendingPreviewSelectionUpdates sampleChart = []" "animationFrames sampleChart = []"
    "\<not> disableHorizontalMovement (viewportProps (props sampleChart))"
    "timeRange (viewportProps (props sampleChart)) = \<lparr> start = Finite 0, end' = Finite 100 \<rparr>"
    "validViewport
        (getHorizontalViewport (previewSelection (viewportProps (props sampleChart)))
           (timeRange (viewportProps (props sampleChart))))"
    "isSizeSet (state sampleChart)" "containerWidth (state sampleChart) = Finite 1000"
    "maximumZoom (viewportProps (props sampleChart)) = Finite (1/100)"
    "timeRange (viewportProps sampleProps) = \<lparr> start = Finite 0, end' = Finite 100 \<rparr>"
    "isFinite (maxViewportHeight (viewportProps sampleProps))"
    "list_all finiteEvent
         [Resize (Some sampleRect), MoveViewport (Finite 10) (Finite (- 50)),
          KeyDown sampleKeyS (Finite 0), AnimationFrame (Finite 16) (Some sampleRect)]"
    "validViewport \<lparr> viewportLeft = Finite (1/4), viewportRight = Finite (3/4) \<rparr>"
    by (simp_all add: sampleChart_facts sampleRect_def getHorizontalViewport_def)
  from viewport_invariant [where tRange = "\<lparr> start = Finite 0, end' = Finite 100 \<rparr>"
      and s = 0 and e = 100 and a = 25 and b = 75 and m = False
      and hv = "\<lparr> viewportLeft = Finite (1/4), viewportRight = Finite (3/4) \<rparr>"
      and w = 1000 and offsetX = 100 and p = sampleProps and mz = "1/100" and c = "1/2" and zf = "1/2"
      and this = sampleChart and offsetY = "Finite 0" and timestamp = "Finite 16"
      and container = "Some sampleRect"
      and initialProps = sampleProps and pow = "\<lambda>x y. Finite 1"
      and events = "[Resize (Some sampleRect), MoveViewport (Finite 10) (Finite (- 50)),
          KeyDown sampleKeyS (Finite 0), AnimationFrame (Finite 16) (Some sampleRect)]"]
    facts
  show ?thesis by (simp only: simp_thms) simp
qed

text \<open>
  C4 as stated fails for a preview selection that is not inside the time range: the
  selection from 50 to 150 of the time range from 0 to 100 gives the viewport
  \<open>(1/2, 3/2)\<close>. A pan in a container of width 0 or over an empty time range gives
  \<open>NaN\<close>, a zoom with \<open>maximumZoom = 2\<close> the viewport \<open>(0, 2)\<close>, and a zoom around the
  centre \<open>NaN\<close> (the one \<open>zoomWithMouseWheel\<close> computes when nothing is left between the
  margins) the viewport \<open>(NaN, NaN)\<close>. The update queued by a pan computes its selection
  in the time range read when \<open>moveViewport\<close> was called, and the flush reads the
  viewport of that selection in the time range of the props it finds: after a pan by 100
  pixels of the sample chart, the props with the time range from 0 to 10, and an animation
  frame, the selection handed to \<open>updatePreviewSelection\<close> is the one from 20 to 70, whose
  viewport in the time range from 0 to 10 is \<open>(2, 7)\<close>.
\<close>

theorem viewport_invariant_counterexample:
  "getHorizontalViewport (Selection False (Finite 50) (Finite 150))
       \<lparr> start = Finite 0, end' = Finite 100 \<rparr>
     = \<lparr> viewportLeft = Finite (1/2), viewportRight = Finite (3/2) \<rparr>
   \<and> \<not> validViewport (getHorizontalViewport (Selection False (Finite 50) (Finite 150))
           \<lparr> start = Finite 0, end' = Finite 100 \<rparr>)
   \<and> \<not> validViewport
         (getHorizontalViewport
            (moveUpdate \<lparr> start = Finite 0, end' = Finite 100 \<rparr> (Finite 0) (Finite 0) sampleProps
               \<lparr> viewportLeft = Finite (1/4), viewportRight = Finite (3/4) \<rparr>)
            \<lparr> start = Finite 0, end' = Finite 100 \<rparr>)
   \<and> \<not> validViewport
         (getHorizontalViewport
            (moveUpdate \<lparr> start = Finite 5, end' = Finite 5 \<rparr> (Finite 1000) (Finite 0) sampleProps
               \<lparr> viewportLeft = Finite (1/4), viewportRight = Finite (3/4) \<rparr>)
            \<lparr> start = Finite 5, end' = Finite 5 \<rparr>)
   \<and> \<not> validViewport
         (getHorizontalViewport
            (zoomUpdate (Finite 2) (Finite (1/2)) (Finite 1) sampleProps
               \<lparr> viewportLeft = Finite 0, viewportRight = Finite 1 \<rparr>)
            \<lparr> start = Finite 0, end' = Finite 100 \<rparr>)
   \<and> \<not> validViewport
         (getHorizontalViewport
            (zoomUpdate (Finite (1/100)) NaN (Finite (3/4)) sampleProps
               \<lparr> viewportLeft = Finite (1/4), viewportRight = Finite (3/4) \<rparr>)
            \<lparr> start = Finite 0, end' = Finite 100 \<rparr>)
   \<and> validViewport
         (getHorizontalViewport (previewSelection (viewportProps committedProps))
            (timeRange (viewportProps committedProps)))
   \<and> updatePreviewSelectionCalls
         (foldl (\<lambda>t event. handle (\<lambda>x y. Finite 1) event t) (constructor sampleProps)
            [Resize (Some sampleRect), MoveViewport (Finite 100) (Finite 0),
             ReceiveProps False True committedProps, AnimationFrame (Finite 16) None])
       = [Selection False (Finite 20) (Finite 70)]
   \<and> getHorizontalViewport (Selection False (Finite 20) (Finite 70))
         (timeRange (viewportProps committedProps))
       = \<lparr> viewportLeft = Finite 2, viewportRight = Finite 7 \<rparr>
   \<and> \<not> validViewport \<lparr> viewportLeft = Finite 2, viewportRight = Finite 7 \<rparr>"
  by (simp add: getHorizontalViewport_def validViewport_def moveUpdate_def pannedViewport_def
        zoomUpdate_def zoomedViewport_def newViewportLength_def sampleProps_def Let_def
        clamp_def Math_min_def Math_max_def strictEquals_def
        infinityOfSign_def less_eq_number_def minus_number_def
        committedProps_def sampleRect_def constructor_def getDefaultState_def setSize_def
        moveViewport_def addBatchedPreviewSelectionUpdate_def requestAnimationFrame_def
        UNSAFE_componentWillReceiveProps_def animationFrame_def
        flushPendingPreviewSelectionUpdates_def)

section \<open>Vertical panning of a mounted component\<close>




end
